theory Spec2Isabelle
  imports Main
begin

section \<open>Python strings\<close>

text \<open>
  A Python \<open>str\<close> is a sequence of Unicode code points: its length and its slices count
  code points. It is modelled as the list of the code points. ASCII literals of the source
  are written \<open>asc ''...''\<close>; the literals with Cyrillic letters or pictographs are
  the constants \<open>T_...\<close> below, each the code points of the literal at the lines named.
\<close>

type_synonym ustr = "nat list"

definition asc :: "string \<Rightarrow> ustr" where
  "asc s = map of_char s"

text \<open>\<open>str.isspace\<close> of one character, as \<open>str.strip()\<close> uses it.\<close>

definition py_isspace :: "nat \<Rightarrow> bool" where
  "py_isspace c =
     ((9 \<le> c \<and> c \<le> 13) \<or> (28 \<le> c \<and> c \<le> 32) \<or> c = 133 \<or> c = 160 \<or> c = 5760
      \<or> (8192 \<le> c \<and> c \<le> 8202) \<or> c = 8232 \<or> c = 8233 \<or> c = 8239 \<or> c = 8287
      \<or> c = 12288)"

definition py_strip :: "ustr \<Rightarrow> ustr" where
  "py_strip s = rev (dropWhile py_isspace (rev (dropWhile py_isspace s)))"

text \<open>
  \<open>str.lower()\<close>, written out on the Latin and the Cyrillic capitals. The source applies
  it only to compare the result with \<open>cancel\<close> and its Russian counterpart, and no
  other code point has one of their letters as its lower-case form.
\<close>

definition lower_char :: "nat \<Rightarrow> nat" where
  "lower_char c =
     (if 65 \<le> c \<and> c \<le> 90 then c + 32
      else if 1040 \<le> c \<and> c \<le> 1071 then c + 32
      else if 1024 \<le> c \<and> c \<le> 1039 then c + 80
      else c)"

definition py_lower :: "ustr \<Rightarrow> ustr" where
  "py_lower s = map lower_char s"

text \<open>SQLite's \<open>LOWER\<close> folds the ASCII capitals only.\<close>

definition sql_lower :: "ustr \<Rightarrow> ustr" where
  "sql_lower s = map (\<lambda>c. if 65 \<le> c \<and> c \<le> 90 then c + 32 else c) s"

definition startswith :: "ustr \<Rightarrow> ustr \<Rightarrow> bool" where
  "startswith s p = (take (length p) s = p)"

text \<open>
  \<open>data.split("_", 1)[1]\<close>: what follows the first underscore. The source takes it only
  of a token that starts with a prefix holding an underscore, so the index 1 exists.
\<close>

definition split_underscore_1 :: "ustr \<Rightarrow> ustr" where
  "split_underscore_1 s = drop 1 (dropWhile (\<lambda>c. c \<noteq> 95) s)"

text \<open>\<open>sep.join(parts)\<close>.\<close>

fun py_join :: "ustr \<Rightarrow> ustr list \<Rightarrow> ustr" where
  "py_join sep [] = []"
| "py_join sep [x] = x"
| "py_join sep (x # y # ys) = x @ sep @ py_join sep (y # ys)"

text \<open>
  \<open>int(s)\<close> of a string: surrounding whitespace is dropped, then an optional sign and
  decimal digits, where single underscores may stand between digits; anything else raises
  ValueError (\<open>None\<close>). The digits are the ASCII ones: the decimal digits of other scripts,
  which Python reads too, are not covered, and the whitespace dropped is that of
  \<open>str.strip()\<close>, which includes the separators 28 to 31 that \<open>int\<close> does not skip in an
  ASCII string. The text handlers strip the text before they call \<open>int\<close>, and the buttons
  of the keyboards give the tokens \<open>100\<close>, \<open>250\<close>, \<open>500\<close> and \<open>custom\<close>.
\<close>

definition is_digit :: "nat \<Rightarrow> bool" where
  "is_digit c = (48 \<le> c \<and> c \<le> 57)"

fun digit_group :: "ustr \<Rightarrow> bool" where
  "digit_group [] = False"
| "digit_group [c] = is_digit c"
| "digit_group (c # d # cs) =
     (is_digit c \<and> (if d = 95 then digit_group cs else digit_group (d # cs)))"

fun dec_value :: "nat \<Rightarrow> ustr \<Rightarrow> nat" where
  "dec_value acc [] = acc"
| "dec_value acc (c # cs) = dec_value (10 * acc + (c - 48)) cs"

definition py_int :: "ustr \<Rightarrow> int option" where
  "py_int s =
     (let t = py_strip s;
          neg = (take 1 t = [45]);
          body = (if take 1 t = [45] \<or> take 1 t = [43] then drop 1 t else t)
      in if digit_group body
         then Some ((if neg then - 1 else 1) * int (dec_value 0 (filter is_digit body)))
         else None)"

text \<open>\<open>str(n)\<close> of an integer.\<close>

function dec_digits :: "nat \<Rightarrow> ustr" where
  "dec_digits n = (if n < 10 then [48 + n] else dec_digits (n div 10) @ [48 + n mod 10])"
  by pat_completeness auto
termination
  by (relation "measure id") auto

declare dec_digits.simps [simp del]

definition py_str_int :: "int \<Rightarrow> ustr" where
  "py_str_int i = (if i < 0 then 45 # dec_digits (nat (- i)) else dec_digits (nat i))"

text \<open>Truth of an optional string: \<open>None\<close> and the empty string are false.\<close>

definition truthy :: "ustr option \<Rightarrow> bool" where
  "truthy s = (case s of None \<Rightarrow> False | Some t \<Rightarrow> t \<noteq> [])"

text \<open>\<open>x or default\<close> on an optional string.\<close>

definition or_else :: "ustr option \<Rightarrow> ustr \<Rightarrow> ustr" where
  "or_else s d = (case s of None \<Rightarrow> d | Some t \<Rightarrow> if t = [] then d else t)"

text \<open>The string of an optional string that is true.\<close>

definition str_of :: "ustr option \<Rightarrow> ustr" where
  "str_of s = (case s of None \<Rightarrow> [] | Some t \<Rightarrow> t)"

section \<open>Constants\<close>

definition ADMIN_DUMP_USER_ID :: int where
  "ADMIN_DUMP_USER_ID = 1637269136"

definition POSITIONS :: "ustr \<Rightarrow> ustr option" where
  "POSITIONS k =
     (if k = asc ''1'' then Some (asc ''Carry'')
      else if k = asc ''2'' then Some (asc ''Mid'')
      else if k = asc ''3'' then Some (asc ''Offlane'')
      else if k = asc ''4'' then Some (asc ''Soft Support'')
      else if k = asc ''5'' then Some (asc ''Hard Support'')
      else None)"

section \<open>The profile table\<close>

text \<open>
  A row of the table \<open>profiles\<close> (lines 49 to 57): every column but the key may be NULL.
  The table is the list of its rows in the order a scan returns them; \<open>user_id\<close> is the
  primary key. Failures of sqlite3 are modelled where the source catches them, by a flag
  that says whether the call succeeds.
\<close>

record profile_row =
  user_id :: int
  position :: "ustr option"
  mode :: "ustr option"
  mmr :: "int option"
  username :: "ustr option"
  online :: "int option"
  full_party :: "int option"

text \<open>Truth of an integer column: \<open>bool(x) if x is not None else False\<close>.\<close>

definition int_truthy :: "int option \<Rightarrow> bool" where
  "int_truthy x = (case x of None \<Rightarrow> False | Some v \<Rightarrow> v \<noteq> 0)"

text \<open>
  \<open>get_profile\<close> (lines 97 to 116) returns the row of the user, or \<open>None\<close>. The dictionary
  it builds holds the columns as they are, but \<open>online\<close> and \<open>full_party\<close> as booleans:
  these are \<open>profile_online\<close> and \<open>profile_full_party\<close> of the row.
\<close>

definition get_profile :: "profile_row list \<Rightarrow> int \<Rightarrow> profile_row option" where
  "get_profile db uid = find (\<lambda>r. user_id r = uid) db"

definition profile_online :: "profile_row \<Rightarrow> bool" where
  "profile_online r = int_truthy (online r)"

definition profile_full_party :: "profile_row \<Rightarrow> bool" where
  "profile_full_party r = int_truthy (full_party r)"

definition keep_or_set :: "'a option \<Rightarrow> 'a option \<Rightarrow> 'a option" where
  "keep_or_set new old = (case new of None \<Rightarrow> old | Some v \<Rightarrow> Some v)"

definition bit_of :: "int option \<Rightarrow> int" where
  "bit_of x = (if int_truthy x then 1 else 0)"

text \<open>
  \<open>upsert_profile\<close> (lines 119 to 170): an existing row keeps the fields that are not
  given; a new row is inserted with the fields given, \<open>online\<close> and \<open>full_party\<close> as 0
  or 1. Where a scan meets the new row is up to the store; the model puts it last.
\<close>

definition upsert_profile ::
  "profile_row list \<Rightarrow> int \<Rightarrow> ustr option \<Rightarrow> ustr option \<Rightarrow> int option \<Rightarrow> ustr option \<Rightarrow>
   int option \<Rightarrow> int option \<Rightarrow> profile_row list" where
  "upsert_profile db uid pos md mm un onl full =
     (if \<exists>r \<in> set db. user_id r = uid
      then map (\<lambda>r. if user_id r = uid
                 then r\<lparr>position := keep_or_set pos (position r),
                        mode := keep_or_set md (mode r),
                        mmr := keep_or_set mm (mmr r),
                        username := keep_or_set un (username r),
                        online := (case onl of None \<Rightarrow> online r | Some v \<Rightarrow> Some (bit_of onl)),
                        full_party :=
                          (case full of None \<Rightarrow> full_party r | Some v \<Rightarrow> Some (bit_of full))\<rparr>
                 else r) db
      else db @ [\<lparr>user_id = uid, position = pos, mode = md, mmr = mm, username = un,
                  online = Some (bit_of onl), full_party = Some (bit_of full)\<rparr>])"

section \<open>The session\<close>

text \<open>
  \<open>context.user_data\<close>, the dictionary of one user: the keys the source uses, each absent
  (\<open>None\<close>) or holding a value, and the prompts cached under the keys that start with
  \<open>last_text_\<close>, as a map from the step's name. \<open>back_stack\<close> is read with the default \<open>[]\<close> everywhere, so the absent
  key and the empty list are one value.
\<close>

record user_data =
  back_stack :: "ustr list"
  search_mode :: "ustr option"
  exclude_position :: "bool option"
  specific_position :: "ustr option"
  only_full_party :: "bool option"
  own_position :: "ustr option"
  last_text :: "ustr \<rightharpoonup> ustr"

text \<open>The return values of the handlers: a state of the ConversationHandler (line 25), or END.\<close>

datatype conv_state =
  END | POSITION | MODE | MMR | SEARCH_MODE | SEARCH_POS_OPTION | SELECT_POSITION
  | SEARCH_FULL_OPTION | SEARCH_MMR

datatype py_error = ValueError | TypeError

text \<open>
  The keyboards, named after the functions and the places that build them, with the
  arguments their buttons depend on. A result keyboard holds the link of each player found,
  or the menu button.
\<close>

datatype button = UrlButton ustr | MenuButton

datatype keyboard =
    MainKeyboard
  | ProfileEditKeyboard bool bool
  | ModeSelectionKeyboard ustr bool
  | SearchPosOptionKeyboard bool
  | SelectPositionKeyboard
  | SearchFullOptionKeyboard bool
  | SearchMmrKeyboard
  | BackMenuKeyboard
  | BackMenuCancelKeyboard
  | SetPositionKeyboard
  | SetMmrKeyboard
  | ResultsKeyboard "button list"
  | NoKeyboard

text \<open>A message the bot sends: the text shown in place of the current one, or a new message.\<close>

datatype out = EditMessage ustr keyboard | ReplyText ustr keyboard

fun out_text :: "out \<Rightarrow> ustr" where
  "out_text (EditMessage t k) = t"
| "out_text (ReplyText t k) = t"

fun out_keyboard :: "out \<Rightarrow> keyboard" where
  "out_keyboard (EditMessage t k) = k"
| "out_keyboard (ReplyText t k) = k"

text \<open>What a handler leaves behind: the session, the table, the messages sent, the value returned.\<close>

record outcome =
  new_ud :: user_data
  new_db :: "profile_row list"
  sent :: "out list"
  ret :: conv_state

definition get_main_keyboard :: keyboard where
  "get_main_keyboard = MainKeyboard"

definition profile_edit_keyboard_dynamic :: "bool \<Rightarrow> bool \<Rightarrow> keyboard" where
  "profile_edit_keyboard_dynamic is_online full = ProfileEditKeyboard is_online full"

text \<open>Lines 215 to 226: the label of the toggle shows the flag, ON when it is absent.\<close>

definition exclude_or_default :: "user_data \<Rightarrow> bool" where
  "exclude_or_default ud = (case exclude_position ud of None \<Rightarrow> True | Some b \<Rightarrow> b)"

definition search_pos_option_keyboard_dynamic :: "user_data \<Rightarrow> keyboard" where
  "search_pos_option_keyboard_dynamic ud = SearchPosOptionKeyboard (exclude_or_default ud)"

subsection \<open>Navigation (lines 266 to 291)\<close>

definition push_back :: "user_data \<Rightarrow> ustr \<Rightarrow> user_data" where
  "push_back ud prev = ud\<lparr>back_stack := back_stack ud @ [prev]\<rparr>"

definition pop_back :: "user_data \<Rightarrow> ustr option \<times> user_data" where
  "pop_back ud =
     (if back_stack ud = [] then (None, ud)
      else (Some (last (back_stack ud)), ud\<lparr>back_stack := butlast (back_stack ud)\<rparr>))"

definition clear_back :: "user_data \<Rightarrow> user_data" where
  "clear_back ud = ud\<lparr>back_stack := []\<rparr>"

definition store_last_text :: "user_data \<Rightarrow> ustr \<Rightarrow> ustr \<Rightarrow> user_data" where
  "store_last_text ud step text = ud\<lparr>last_text := (last_text ud)(step \<mapsto> text)\<rparr>"

definition get_last_text :: "user_data \<Rightarrow> ustr \<Rightarrow> ustr option" where
  "get_last_text ud step = last_text ud step"

text \<open>The five \<open>pop\<close> calls that end a search or lead to the main menu (lines 404 to 408).\<close>

definition pop_search_fields :: "user_data \<Rightarrow> user_data" where
  "pop_search_fields ud =
     ud\<lparr>search_mode := None, exclude_position := None, specific_position := None,
        only_full_party := None, own_position := None\<rparr>"

section \<open>The texts\<close>

text \<open>Lines 316, 321, 372 and 409 (13 characters): Main menu:\<close>

definition T_main_menu :: ustr where
  "T_main_menu = [1043, 1083, 1072, 1074, 1085, 1086, 1077, 32, 1084, 1077, 1085, 1102, 58]"

text \<open>Line 422 (17 characters): Your profile:\<close>

definition T_profile_head :: ustr where
  "T_profile_head = [128100, 32, 1058, 1074, 1086, 1081, 32, 1087, 1088, 1086, 1092, 1080,
     1083, 1100, 58, 10, 10]"

text \<open>Line 423 (11 characters): Position:\<close>

definition T_profile_pos :: ustr where
  "T_profile_pos = [127919, 32, 1055, 1086, 1079, 1080, 1094, 1080, 1103, 58, 32]"

text \<open>Lines 423, 424, 425, 874, 875, 932 and 933 (1 character): an em dash, shown for an unset field\<close>

definition DASH :: ustr where
  "DASH = [8212]"

text \<open>Line 424 (24 characters): Preferred mode:\<close>

definition T_profile_mode :: ustr where
  "T_profile_mode = [127918, 32, 1055, 1088, 1077, 1076, 1087, 1086, 1095, 1080, 1090, 1072,
     1077, 1084, 1099, 1081, 32, 1088, 1077, 1078, 1080, 1084, 58, 32]"

text \<open>Line 425 (7 characters): MMR:\<close>

definition T_profile_mmr :: ustr where
  "T_profile_mmr = [128202, 32, 77, 77, 82, 58, 32]"

text \<open>Line 426 (13 characters): Username: @\<close>

definition T_profile_username :: ustr where
  "T_profile_username = [128279, 32, 85, 115, 101, 114, 110, 97, 109, 101, 58, 32, 64]"

text \<open>Line 428 (186 characters): the explanation of the Online/Offline status\<close>

definition T_profile_status :: ustr where
  "T_profile_status = [10, 10, 1057, 1090, 1072, 1090, 1091, 1089, 32, 79, 110, 108, 105, 110,
     101, 47, 79, 102, 102, 108, 105, 110, 101, 58, 10, 1045, 1089, 1083, 1080, 32, 1074, 1099,
     32, 1074, 1082, 1083, 1102, 1095, 1080, 1090, 1077, 32, 79, 110, 108, 105, 110, 101, 32,
     8212, 32, 1074, 1072, 1089, 32, 1073, 1091, 1076, 1091, 1090, 32, 1087, 1086, 1082, 1072,
     1079, 1099, 1074, 1072, 1090, 1100, 32, 1074, 32, 1088, 1077, 1079, 1091, 1083, 1100,
     1090, 1072, 1090, 1072, 1093, 32, 1087, 1086, 1080, 1089, 1082, 1072, 32, 1080, 32, 1074,
     1072, 1084, 32, 1084, 1086, 1075, 1091, 1090, 32, 1085, 1072, 1087, 1080, 1089, 1072,
     1090, 1100, 46, 10, 1045, 1089, 1083, 1080, 32, 1074, 1099, 1082, 1083, 1102, 1095, 1080,
     1090, 1077, 32, 8212, 32, 1074, 1099, 32, 1085, 1077, 32, 1073, 1091, 1076, 1077, 1090,
     1077, 32, 1074, 1080, 1076, 1085, 1099, 32, 1074, 32, 1087, 1086, 1080, 1089, 1082, 1077,
     32, 1080, 32, 1074, 1072, 1089, 32, 1085, 1077, 32, 1073, 1091, 1076, 1091, 1090, 32,
     1073, 1077, 1089, 1087, 1086, 1082, 1086, 1080, 1090, 1100, 46]"

text \<open>Line 433 (101 characters): the explanation of Full party\<close>

definition T_profile_full :: ustr where
  "T_profile_full = [10, 10, 70, 117, 108, 108, 32, 112, 97, 114, 116, 121, 32, 40, 1089, 1086,
     1075, 1083, 1072, 1089, 1077, 1085, 32, 1085, 1072, 32, 1087, 1086, 1083, 1085, 1091,
     1102, 32, 1087, 1072, 1090, 1080, 41, 58, 10, 1045, 1089, 1083, 1080, 32, 1074, 1082,
     1083, 1102, 1095, 1077, 1085, 1086, 32, 8212, 32, 1074, 1099, 32, 1087, 1086, 1084, 1077,
     1095, 1077, 1085, 1099, 32, 1082, 1072, 1082, 32, 1075, 1086, 1090, 1086, 1074, 1099,
     1081, 32, 1080, 1075, 1088, 1072, 1090, 1100, 32, 1074, 32, 1087, 1086, 1083, 1085, 1091,
     1102, 32, 1087, 1072, 1090, 1080, 46]"

text \<open>Line 450 (50 characters): Error while switching the status\<close>

definition T_toggle_online_error :: ustr where
  "T_toggle_online_error = [1054, 1096, 1080, 1073, 1082, 1072, 32, 1087, 1088, 1080, 32, 1087,
     1077, 1088, 1077, 1082, 1083, 1102, 1095, 1077, 1085, 1080, 1080, 32, 1089, 1090, 1072,
     1090, 1091, 1089, 1072, 46, 32, 1055, 1086, 1087, 1088, 1086, 1073, 1091, 1081, 1090,
     1077, 32, 1087, 1086, 1079, 1078, 1077, 46]"

text \<open>Line 454 (105 characters): You switched to ONLINE\<close>

definition T_online_on :: ustr where
  "T_online_on = [128994, 32, 1042, 1099, 32, 1074, 1082, 1083, 1102, 1095, 1080, 1083, 1080,
     32, 1089, 1090, 1072, 1090, 1091, 1089, 32, 79, 78, 76, 73, 78, 69, 46, 10, 10, 1069,
     1090, 1086, 32, 1086, 1079, 1085, 1072, 1095, 1072, 1077, 1090, 58, 32, 1083, 1102, 1076,
     1080, 32, 1073, 1091, 1076, 1091, 1090, 32, 1074, 1080, 1076, 1077, 1090, 1100, 32, 1074,
     1072, 1089, 32, 1074, 32, 1088, 1077, 1079, 1091, 1083, 1100, 1090, 1072, 1090, 1072,
     1093, 32, 1087, 1086, 1080, 1089, 1082, 1072, 32, 1080, 32, 1089, 1084, 1086, 1075, 1091,
     1090, 32, 1085, 1072, 1087, 1080, 1089, 1072, 1090, 1100, 46]"

text \<open>Line 456 (85 characters): You switched to OFFLINE\<close>

definition T_online_off :: ustr where
  "T_online_off = [9898, 32, 1042, 1099, 32, 1087, 1077, 1088, 1077, 1082, 1083, 1102, 1095,
     1080, 1083, 1080, 1089, 1100, 32, 1074, 32, 79, 70, 70, 76, 73, 78, 69, 46, 10, 10, 1042,
     1099, 32, 1085, 1077, 32, 1073, 1091, 1076, 1077, 1090, 1077, 32, 1074, 1080, 1076, 1085,
     1099, 32, 1074, 32, 1087, 1086, 1080, 1089, 1082, 1077, 32, 1080, 32, 1074, 1072, 1089,
     32, 1085, 1077, 32, 1073, 1091, 1076, 1091, 1090, 32, 1073, 1077, 1089, 1087, 1086, 1082,
     1086, 1080, 1090, 1100, 46]"

text \<open>Line 473 (48 characters): Error while switching the option\<close>

definition T_toggle_full_error :: ustr where
  "T_toggle_full_error = [1054, 1096, 1080, 1073, 1082, 1072, 32, 1087, 1088, 1080, 32, 1087,
     1077, 1088, 1077, 1082, 1083, 1102, 1095, 1077, 1085, 1080, 1080, 32, 1086, 1087, 1094,
     1080, 1080, 46, 32, 1055, 1086, 1087, 1088, 1086, 1073, 1091, 1081, 1090, 1077, 32, 1087,
     1086, 1079, 1078, 1077, 46]"

text \<open>Line 477 (99 characters): You agreed to Full Party\<close>

definition T_full_on :: ustr where
  "T_full_on = [9989, 32, 1042, 1099, 32, 1074, 1082, 1083, 1102, 1095, 1080, 1083, 1080, 32,
     1089, 1086, 1075, 1083, 1072, 1089, 1080, 1077, 32, 1085, 1072, 32, 70, 117, 108, 108, 32,
     80, 97, 114, 116, 121, 46, 10, 10, 1069, 1090, 1086, 32, 1087, 1086, 1082, 1072, 1079,
     1099, 1074, 1072, 1077, 1090, 32, 1076, 1088, 1091, 1075, 1080, 1084, 44, 32, 1095, 1090,
     1086, 32, 1074, 1099, 32, 1089, 1086, 1075, 1083, 1072, 1089, 1085, 1099, 32, 1080, 1075,
     1088, 1072, 1090, 1100, 32, 1074, 32, 1087, 1086, 1083, 1085, 1091, 1102, 32, 1087, 1072,
     1090, 1080, 46]"

text \<open>Line 479 (89 characters): You withdrew the Full Party agreement\<close>

definition T_full_off :: ustr where
  "T_full_off = [10060, 32, 1042, 1099, 32, 1086, 1090, 1082, 1083, 1102, 1095, 1080, 1083,
     1080, 32, 1089, 1086, 1075, 1083, 1072, 1089, 1080, 1077, 32, 1085, 1072, 32, 70, 117,
     108, 108, 32, 80, 97, 114, 116, 121, 46, 10, 10, 1042, 1099, 32, 1085, 1077, 32, 1087,
     1086, 1084, 1077, 1095, 1077, 1085, 1099, 32, 1082, 1072, 1082, 32, 1078, 1077, 1083,
     1072, 1102, 1097, 1080, 1081, 32, 1080, 1075, 1088, 1072, 1090, 1100, 32, 1074, 32, 1087,
     1086, 1083, 1085, 1091, 1102, 32, 1087, 1072, 1090, 1080, 46]"

text \<open>Line 489 (106 characters): Give your preferred position as a digit, 1 to 5\<close>

definition T_edit_position :: ustr where
  "T_edit_position = [1059, 1082, 1072, 1078, 1080, 32, 1089, 1074, 1086, 1102, 32, 1087, 1088,
     1077, 1076, 1087, 1086, 1095, 1080, 1090, 1072, 1077, 1084, 1091, 1102, 32, 1087, 1086,
     1079, 1080, 1094, 1080, 1102, 32, 1094, 1080, 1092, 1088, 1086, 1081, 58, 10, 10, 49, 32,
     8212, 32, 67, 97, 114, 114, 121, 10, 50, 32, 8212, 32, 77, 105, 100, 10, 51, 32, 8212, 32,
     79, 102, 102, 108, 97, 110, 101, 10, 52, 32, 8212, 32, 83, 111, 102, 116, 32, 83, 117,
     112, 112, 111, 114, 116, 10, 53, 32, 8212, 32, 72, 97, 114, 100, 32, 83, 117, 112, 112,
     111, 114, 116]"

text \<open>Line 497 (55 characters): Choose the preferred mode\<close>

definition T_edit_mode :: ustr where
  "T_edit_mode = [1042, 1099, 1073, 1077, 1088, 1080, 32, 1087, 1088, 1077, 1076, 1087, 1086,
     1095, 1080, 1090, 1072, 1077, 1084, 1099, 1081, 32, 1088, 1077, 1078, 1080, 1084, 32, 40,
     1073, 1091, 1076, 1077, 1090, 32, 1089, 1086, 1093, 1088, 1072, 1085, 1105, 1085, 32,
     1074, 32, 1087, 1088, 1086, 1092, 1080, 1083, 1077, 41, 58]"

text \<open>Line 504 (45 characters): Enter your MMR\<close>

definition T_edit_mmr :: ustr where
  "T_edit_mmr = [1042, 1074, 1077, 1076, 1080, 32, 1089, 1074, 1086, 1081, 32, 77, 77, 82, 32,
     40, 1094, 1077, 1083, 1086, 1077, 32, 1095, 1080, 1089, 1083, 1086, 44, 32, 1085, 1072,
     1087, 1088, 1080, 1084, 1077, 1088, 58, 32, 51, 53, 48, 48, 41, 58]"

text \<open>Line 520 (33 characters): Preferred mode saved: (the mode follows)\<close>

definition T_mode_saved :: ustr where
  "T_mode_saved = [9989, 32, 1055, 1088, 1077, 1076, 1087, 1086, 1095, 1080, 1090, 1072, 1077,
     1084, 1099, 1081, 32, 1088, 1077, 1078, 1080, 1084, 32, 1089, 1086, 1093, 1088, 1072,
     1085, 1105, 1085, 58, 32]"

text \<open>Line 525 (43 characters): Error saving the mode\<close>

definition T_mode_save_error :: ustr where
  "T_mode_save_error = [1054, 1096, 1080, 1073, 1082, 1072, 32, 1089, 1086, 1093, 1088, 1072,
     1085, 1077, 1085, 1080, 1103, 32, 1088, 1077, 1078, 1080, 1084, 1072, 46, 32, 1055, 1086,
     1087, 1088, 1086, 1073, 1091, 1081, 1090, 1077, 32, 1087, 1086, 1079, 1078, 1077, 46]"

text \<open>Line 534 (34 characters): First set the position in the profile!\<close>

definition T_need_position :: ustr where
  "T_need_position = [10060, 32, 1057, 1085, 1072, 1095, 1072, 1083, 1072, 32, 1091, 1082,
     1072, 1078, 1080, 32, 1087, 1086, 1079, 1080, 1094, 1080, 1102, 32, 1074, 32, 1087, 1088,
     1086, 1092, 1080, 1083, 1077, 33]"

text \<open>Lines 344 and 544 (29 characters): Choose the game mode to search\<close>

definition T_search_mode :: ustr where
  "T_search_mode = [1042, 1099, 1073, 1077, 1088, 1080, 32, 1088, 1077, 1078, 1080, 1084, 32,
     1080, 1075, 1088, 1099, 32, 1076, 1083, 1103, 32, 1087, 1086, 1080, 1089, 1082, 1072, 58]"

text \<open>Line 554 (35 characters): First choose a position in the profile.\<close>

definition T_need_own_position :: ustr where
  "T_need_own_position = [1057, 1085, 1072, 1095, 1072, 1083, 1072, 32, 1074, 1099, 1073, 1077,
     1088, 1080, 1090, 1077, 32, 1087, 1086, 1079, 1080, 1094, 1080, 1102, 32, 1074, 32, 1087,
     1088, 1086, 1092, 1080, 1083, 1077, 46]"

text \<open>Lines 350 and 560 (74 characters): Exclude your position, or search a given position?\<close>

definition T_search_pos_option :: ustr where
  "T_search_pos_option = [1061, 1086, 1090, 1080, 1090, 1077, 32, 1080, 1089, 1082, 1083, 1102,
     1095, 1072, 1090, 1100, 32, 1074, 1072, 1096, 1091, 32, 1087, 1086, 1079, 1080, 1094,
     1080, 1102, 32, 1087, 1088, 1080, 32, 1087, 1086, 1080, 1089, 1082, 1077, 44, 32, 1080,
     1083, 1080, 32, 1080, 1089, 1082, 1072, 1090, 1100, 32, 1086, 1087, 1088, 1077, 1076,
     1077, 1083, 1105, 1085, 1085, 1091, 1102, 32, 1087, 1086, 1079, 1080, 1094, 1080, 1102, 63]"

text \<open>Line 571 (40 characters): Choose what to do about the position\<close>

definition T_toggle_exclude :: ustr where
  "T_toggle_exclude = [1042, 1099, 1073, 1077, 1088, 1080, 1090, 1077, 32, 1076, 1077, 1081,
     1089, 1090, 1074, 1080, 1077, 32, 1087, 1086, 32, 1087, 1086, 1079, 1080, 1094, 1080,
     1080, 32, 1076, 1083, 1103, 32, 1087, 1086, 1080, 1089, 1082, 1072, 58]"

text \<open>Lines 362, 579 and 600 (46 characters): Search only those who agree to Full Party?\<close>

definition T_search_full_option :: ustr where
  "T_search_full_option = [1048, 1089, 1082, 1072, 1090, 1100, 32, 1090, 1086, 1083, 1100,
     1082, 1086, 32, 1090, 1077, 1093, 44, 32, 1082, 1090, 1086, 32, 1089, 1086, 1075, 1083,
     1072, 1089, 1077, 1085, 32, 1085, 1072, 32, 70, 117, 108, 108, 32, 80, 97, 114, 116, 121,
     63]"

text \<open>Lines 356 and 586 (28 characters): Choose the position to search\<close>

definition T_select_position :: ustr where
  "T_select_position = [1042, 1099, 1073, 1077, 1088, 1080, 1090, 1077, 32, 1087, 1086, 1079,
     1080, 1094, 1080, 1102, 32, 1076, 1083, 1103, 32, 1087, 1086, 1080, 1089, 1082, 1072, 58]"

text \<open>Line 594 (23 characters): Wrong position choice.\<close>

definition T_bad_position :: ustr where
  "T_bad_position = [1053, 1077, 1074, 1077, 1088, 1085, 1099, 1081, 32, 1074, 1099, 1073,
     1086, 1088, 32, 1087, 1086, 1079, 1080, 1094, 1080, 1080, 46]"

text \<open>Line 609 (57 characters): Chosen: only Full party. Now choose the MMR options:\<close>

definition T_only_full_yes :: ustr where
  "T_only_full_yes = [1042, 1099, 1073, 1088, 1072, 1085, 1086, 58, 32, 1090, 1086, 1083, 1100,
     1082, 1086, 32, 70, 117, 108, 108, 32, 112, 97, 114, 116, 121, 46, 32, 1058, 1077, 1087,
     1077, 1088, 1100, 32, 1074, 1099, 1073, 1077, 1088, 1080, 1090, 1077, 32, 1086, 1087,
     1094, 1080, 1080, 32, 1087, 1086, 32, 77, 77, 82, 58]"

text \<open>Lines 368, 610 and 618 (29 characters): Now choose the MMR options:\<close>

definition T_search_mmr :: ustr where
  "T_search_mmr = [1058, 1077, 1087, 1077, 1088, 1100, 32, 1074, 1099, 1073, 1077, 1088, 1080,
     1090, 1077, 32, 1086, 1087, 1094, 1080, 1080, 32, 1087, 1086, 32, 77, 77, 82, 58]"

text \<open>Line 617 (68 characters): Chosen: no Full party filter. Now choose the MMR options:\<close>

definition T_only_full_no :: ustr where
  "T_only_full_no = [1042, 1099, 1073, 1088, 1072, 1085, 1086, 58, 32, 1085, 1077, 32, 1092,
     1080, 1083, 1100, 1090, 1088, 1086, 1074, 1072, 1090, 1100, 32, 1087, 1086, 32, 70, 117,
     108, 108, 32, 112, 97, 114, 116, 121, 46, 32, 1058, 1077, 1087, 1077, 1088, 1100, 32,
     1074, 1099, 1073, 1077, 1088, 1080, 1090, 1077, 32, 1086, 1087, 1094, 1080, 1080, 32,
     1087, 1086, 32, 77, 77, 82, 58]"

text \<open>Lines 645 and 755 (49 characters): To filter by MMR, first set your MMR.\<close>

definition T_need_mmr :: ustr where
  "T_need_mmr = [1063, 1090, 1086, 1073, 1099, 32, 1092, 1080, 1083, 1100, 1090, 1088, 1086,
     1074, 1072, 1090, 1100, 32, 1087, 1086, 32, 77, 77, 82, 44, 32, 1089, 1085, 1072, 1095,
     1072, 1083, 1072, 32, 1091, 1082, 1072, 1078, 1080, 32, 1089, 1074, 1086, 1081, 32, 77,
     77, 82, 46]"

text \<open>Line 664 (115 characters): Enter the delta (a positive integer)\<close>

definition T_delta_custom :: ustr where
  "T_delta_custom = [1042, 1074, 1077, 1076, 1080, 32, 1079, 1085, 1072, 1095, 1077, 1085,
     1080, 1077, 32, 916, 32, 40, 1087, 1086, 1083, 1086, 1078, 1080, 1090, 1077, 1083, 1100,
     1085, 1086, 1077, 32, 1094, 1077, 1083, 1086, 1077, 41, 44, 32, 1085, 1072, 1087, 1088,
     1080, 1084, 1077, 1088, 58, 32, 51, 48, 48, 10, 40, 1052, 1052, 1056, 32, 1073, 1091,
     1076, 1077, 1090, 32, 1080, 1089, 1082, 1072, 1090, 1100, 1089, 1103, 32, 1074, 32, 1076,
     1080, 1072, 1087, 1072, 1079, 1086, 1085, 1077, 32, 91, 121, 111, 117, 114, 95, 109, 109,
     114, 32, 45, 32, 916, 44, 32, 121, 111, 117, 114, 95, 109, 109, 114, 32, 43, 32, 916, 93,
     41]"

text \<open>Line 687 (24 characters): Enter a digit from 1 to 5!\<close>

definition T_position_invalid :: ustr where
  "T_position_invalid = [10060, 32, 1042, 1074, 1077, 1076, 1080, 32, 1094, 1080, 1092, 1088,
     1091, 32, 1086, 1090, 32, 49, 32, 1076, 1086, 32, 53, 33]"

text \<open>Lines 697 and 726 (34 characters): Save error. Try later.\<close>

definition T_save_error :: ustr where
  "T_save_error = [1054, 1096, 1080, 1073, 1082, 1072, 32, 1089, 1086, 1093, 1088, 1072, 1085,
     1077, 1085, 1080, 1103, 46, 32, 1055, 1086, 1087, 1088, 1086, 1073, 1091, 1081, 32, 1087,
     1086, 1079, 1078, 1077, 46]"

text \<open>Line 699 (21 characters): Position saved: (the label follows)\<close>

definition T_position_saved :: ustr where
  "T_position_saved = [9989, 32, 1055, 1086, 1079, 1080, 1094, 1080, 1103, 32, 1089, 1086,
     1093, 1088, 1072, 1085, 1077, 1085, 1072, 58, 32]"

text \<open>Line 699 (32 characters): Now you can search for a teammate!\<close>

definition T_position_saved_end :: ustr where
  "T_position_saved_end = [10, 10, 1058, 1077, 1087, 1077, 1088, 1100, 32, 1084, 1086, 1078,
     1077, 1096, 1100, 32, 1080, 1089, 1082, 1072, 1090, 1100, 32, 1090, 1080, 1084, 1084,
     1077, 1081, 1090, 1072, 33]"



text \<open>Line 745 (57 characters): Enter a correct positive delta\<close>

definition T_delta_invalid :: ustr where
  "T_delta_invalid = [10060, 32, 1042, 1074, 1077, 1076, 1080, 32, 1082, 1086, 1088, 1088,
     1077, 1082, 1090, 1085, 1086, 1077, 32, 1087, 1086, 1083, 1086, 1078, 1080, 1090, 1077,
     1083, 1100, 1085, 1086, 1077, 32, 1095, 1080, 1089, 1083, 1086, 32, 916, 32, 40, 1085,
     1072, 1087, 1088, 1080, 1084, 1077, 1088, 58, 32, 51, 48, 48, 41, 46]"

text \<open>Line 838 (66 characters): To filter by MMR, your profile must have an MMR.\<close>

definition T_search_need_mmr :: ustr where
  "T_search_need_mmr = [1063, 1090, 1086, 1073, 1099, 32, 1092, 1080, 1083, 1100, 1090, 1088,
     1086, 1074, 1072, 1090, 1100, 32, 1087, 1086, 32, 77, 77, 82, 44, 32, 1091, 32, 1090,
     1077, 1073, 1103, 32, 1076, 1086, 1083, 1078, 1077, 1085, 32, 1073, 1099, 1090, 1100, 32,
     1091, 1082, 1072, 1079, 1072, 1085, 32, 77, 77, 82, 32, 1074, 32, 1087, 1088, 1086, 1092,
     1080, 1083, 1077, 46]"

text \<open>Line 857 (35 characters): Search error. Details are in the logs.\<close>

definition T_search_error :: ustr where
  "T_search_error = [1054, 1096, 1080, 1073, 1082, 1072, 32, 1087, 1086, 1080, 1089, 1082,
     1072, 46, 32, 1055, 1086, 1076, 1088, 1086, 1073, 1085, 1086, 1089, 1090, 1080, 32, 1074,
     32, 1083, 1086, 1075, 1072, 1093, 46]"

text \<open>Line 864 (61 characters): Nobody found for these criteria yet. Try later!\<close>

definition T_no_results :: ustr where
  "T_no_results = [128532, 32, 1055, 1086, 1082, 1072, 32, 1085, 1080, 1082, 1090, 1086, 32,
     1085, 1077, 32, 1085, 1072, 1081, 1076, 1077, 1085, 32, 1087, 1086, 32, 1079, 1072, 1076,
     1072, 1085, 1085, 1099, 1084, 32, 1082, 1088, 1080, 1090, 1077, 1088, 1080, 1103, 1084,
     46, 32, 1055, 1086, 1087, 1088, 1086, 1073, 1091, 1081, 32, 1087, 1086, 1079, 1078, 1077,
     33]"

text \<open>Line 874 (1 character): the handshake sign of a full-party player\<close>

definition T_handshake :: ustr where
  "T_handshake = [129309]"

text \<open>Line 875 (2 characters): the user sign before the label\<close>

definition T_res_user :: ustr where
  "T_res_user = [128100, 32]"

text \<open>Line 875 (3 characters): a line break and the position sign\<close>

definition T_res_pos :: ustr where
  "T_res_pos = [10, 127919, 32]"

text \<open>Line 875 (5 characters): the separator and the mode sign\<close>

definition T_res_mode :: ustr where
  "T_res_mode = [32, 124, 32, 127918, 32]"

text \<open>Line 875 (5 characters): the separator and the MMR sign\<close>

definition T_res_mmr :: ustr where
  "T_res_mmr = [32, 124, 32, 128202, 32]"

text \<open>Line 884 (20 characters): Search results:\<close>

definition T_results_head :: ustr where
  "T_results_head = [1056, 1077, 1079, 1091, 1083, 1100, 1090, 1072, 1090, 1099, 32, 1087,
     1086, 1080, 1089, 1082, 1072, 58, 10, 10]"

text \<open>Line 884 (44 characters): Write to the players to arrange a game!\<close>

definition T_results_end :: ustr where
  "T_results_end = [10, 10, 1053, 1072, 1087, 1080, 1096, 1080, 32, 1080, 1075, 1088, 1086,
     1082, 1072, 1084, 44, 32, 1095, 1090, 1086, 1073, 1099, 32, 1076, 1086, 1075, 1086, 1074,
     1086, 1088, 1080, 1090, 1100, 1089, 1103, 32, 1086, 32, 1080, 1075, 1088, 1077, 33]"

text \<open>Line 910 (33 characters): You have no access to this command.\<close>

definition T_no_access :: ustr where
  "T_no_access = [1059, 32, 1074, 1072, 1089, 32, 1085, 1077, 1090, 32, 1076, 1086, 1089, 1090,
     1091, 1087, 1072, 32, 1082, 32, 1101, 1090, 1086, 1081, 32, 1082, 1086, 1084, 1072, 1085,
     1076, 1077, 46]"

text \<open>Line 921 (37 characters): Error reading the database. Check the logs.\<close>

definition T_dump_read_error :: ustr where
  "T_dump_read_error = [1054, 1096, 1080, 1073, 1082, 1072, 32, 1087, 1088, 1080, 32, 1095,
     1090, 1077, 1085, 1080, 1080, 32, 1041, 1044, 46, 32, 1055, 1088, 1086, 1074, 1077, 1088,
     1100, 1090, 1077, 32, 1083, 1086, 1075, 1080, 46]"

text \<open>Line 925 (20 characters): The profile database is empty.\<close>

definition T_dump_empty :: ustr where
  "T_dump_empty = [1041, 1072, 1079, 1072, 32, 1087, 1088, 1086, 1092, 1080, 1083, 1077, 1081,
     32, 1087, 1091, 1089, 1090, 1072, 46]"

text \<open>Lines 680, 707 and 736 (6 characters): the Russian word for cancel, in lower case\<close>

definition CANCEL_RU :: ustr where
  "CANCEL_RU = [1086, 1090, 1084, 1077, 1085, 1072]"

section \<open>Rendering the previous step (lines 297 to 372)\<close>

text \<open>
  \<open>respond\<close> edits the message of a callback query and answers a text message with a new
  one; \<open>via_query\<close> says which. For the step PROFILE with no cached text the source
  evaluates a string literal followed by a parenthesis (lines 329 to 338), a call of a
  string, which raises TypeError.
\<close>

definition respond :: "bool \<Rightarrow> ustr \<Rightarrow> keyboard \<Rightarrow> out" where
  "respond via_query text kb = (if via_query then EditMessage text kb else ReplyText text kb)"

definition render_prev ::
  "ustr option \<Rightarrow> bool \<Rightarrow> int \<Rightarrow> user_data \<Rightarrow> profile_row list \<Rightarrow> py_error + (user_data \<times> out)"
  where
  "render_prev prev via_query from_user_id ud db =
     (if \<not> truthy prev then Inr (ud, respond via_query T_main_menu get_main_keyboard)
      else if prev = Some (asc ''MAIN_MENU'')
        then Inr (clear_back ud, respond via_query T_main_menu get_main_keyboard)
      else if prev = Some (asc ''PROFILE'') then
        (let profile = get_profile db from_user_id;
             onl = (case profile of None \<Rightarrow> False | Some p \<Rightarrow> profile_online p);
             full = (case profile of None \<Rightarrow> False | Some p \<Rightarrow> profile_full_party p);
             last = get_last_text ud (asc ''PROFILE'')
         in if truthy last
            then Inr (ud, respond via_query (str_of last) (profile_edit_keyboard_dynamic onl full))
            else Inl TypeError)
      else if prev = Some (asc ''SEARCH_MODE'') then
        Inr (ud, respond via_query (or_else (get_last_text ud (asc ''SEARCH_MODE'')) T_search_mode)
                   (ModeSelectionKeyboard (asc ''mode_'') True))
      else if prev = Some (asc ''SEARCH_POS_OPTION'') then
        Inr (ud, respond via_query
                   (or_else (get_last_text ud (asc ''SEARCH_POS_OPTION'')) T_search_pos_option)
                   (search_pos_option_keyboard_dynamic ud))
      else if prev = Some (asc ''SELECT_POSITION'') then
        Inr (ud, respond via_query
                   (or_else (get_last_text ud (asc ''SELECT_POSITION'')) T_select_position)
                   SelectPositionKeyboard)
      else if prev = Some (asc ''SEARCH_FULL_OPTION'') then
        Inr (ud, respond via_query
                   (or_else (get_last_text ud (asc ''SEARCH_FULL_OPTION'')) T_search_full_option)
                   (SearchFullOptionKeyboard True))
      else if prev = Some (asc ''SEARCH_MMR'') then
        Inr (ud, respond via_query (or_else (get_last_text ud (asc ''SEARCH_MMR'')) T_search_mmr)
                   SearchMmrKeyboard)
      else Inr (ud, respond via_query T_main_menu get_main_keyboard))"

section \<open>The search (lines 787 to 895)\<close>

text \<open>
  The WHERE clause the source composes is a conjunction of conditions, each with its
  parameter. A condition on a NULL column is not true in SQL, so it rejects the row; the
  one condition that admits NULL says so itself (\<open>position IS NULL OR position != ?\<close>).
\<close>

datatype pred =
    UserIdNe int
  | OnlineEq1
  | PositionEq ustr
  | PositionNullOrNe ustr
  | ModeLowerEq ustr
  | FullPartyEq1
  | MmrBetween int int

fun holds :: "pred \<Rightarrow> profile_row \<Rightarrow> bool" where
  "holds (UserIdNe u) r = (user_id r \<noteq> u)"
| "holds OnlineEq1 r = (online r = Some 1)"
| "holds (PositionEq p) r = (position r = Some p)"
| "holds (PositionNullOrNe p) r = (case position r of None \<Rightarrow> True | Some q \<Rightarrow> q \<noteq> p)"
| "holds (ModeLowerEq m) r =
     (case mode r of None \<Rightarrow> False | Some q \<Rightarrow> sql_lower q = sql_lower m)"
| "holds FullPartyEq1 r = (full_party r = Some 1)"
| "holds (MmrBetween lo hi) r = (case mmr r of None \<Rightarrow> False | Some m \<Rightarrow> lo \<le> m \<and> m \<le> hi)"

definition holds_all :: "pred list \<Rightarrow> profile_row \<Rightarrow> bool" where
  "holds_all ps r = list_all (\<lambda>q. holds q r) ps"

text \<open>Lines 810 to 812.\<close>

definition requester_pos :: "profile_row list \<Rightarrow> int \<Rightarrow> ustr option" where
  "requester_pos db rid = (case get_profile db rid of None \<Rightarrow> None | Some p \<Rightarrow> position p)"

definition requester_mmr :: "profile_row list \<Rightarrow> int \<Rightarrow> int option" where
  "requester_mmr db rid = (case get_profile db rid of None \<Rightarrow> None | Some p \<Rightarrow> mmr p)"

text \<open>Lines 814 to 833: the conditions that do not depend on the MMR filter.\<close>

definition base_where ::
  "profile_row list \<Rightarrow> int \<Rightarrow> ustr option \<Rightarrow> bool option \<Rightarrow> ustr option \<Rightarrow> bool option \<Rightarrow> pred list"
  where
  "base_where db rid smode excl spec only_full =
     [UserIdNe rid, OnlineEq1]
     @ (if truthy spec then [PositionEq (str_of spec)]
        else if excl = Some True \<and> truthy (requester_pos db rid)
          then [PositionNullOrNe (str_of (requester_pos db rid))]
        else [])
     @ (if truthy smode then [ModeLowerEq (str_of smode)] else [])
     @ (if only_full = Some True then [FullPartyEq1] else [])"

text \<open>Lines 841 and 842.\<close>

definition mmr_window :: "int \<Rightarrow> int \<Rightarrow> int \<times> int" where
  "mmr_window rm delta = (max 0 (rm - delta), rm + delta)"

text \<open>
  Lines 814 to 844: the whole clause, or \<open>None\<close> where the source returns at line 840
  because the filter is asked for and the requester has no MMR.
\<close>

definition search_where ::
  "profile_row list \<Rightarrow> int \<Rightarrow> ustr option \<Rightarrow> int option \<Rightarrow> bool option \<Rightarrow> ustr option \<Rightarrow>
   bool option \<Rightarrow> pred list option" where
  "search_where db rid smode mmr_filter excl spec only_full =
     (case mmr_filter of
        None \<Rightarrow> Some (base_where db rid smode excl spec only_full)
      | Some delta \<Rightarrow>
          (case requester_mmr db rid of
             None \<Rightarrow> None
           | Some rm \<Rightarrow>
               Some (base_where db rid smode excl spec only_full
                     @ [MmrBetween (fst (mmr_window rm delta)) (snd (mmr_window rm delta))])))"

text \<open>
  What the search comes to (lines 806 to 867): the message about the missing MMR, the
  failure of the database, no row, or the rows found, at most 30 of them.
\<close>

datatype search_result =
  MmrUnavailable | SearchFailed | NoResults | Found "profile_row list"

definition run_query :: "pred list \<Rightarrow> profile_row list \<Rightarrow> profile_row list" where
  "run_query ps db = take 30 (filter (holds_all ps) db)"

definition search_rows ::
  "bool \<Rightarrow> profile_row list \<Rightarrow> int \<Rightarrow> ustr option \<Rightarrow> int option \<Rightarrow> bool option \<Rightarrow> ustr option \<Rightarrow>
   bool option \<Rightarrow> search_result" where
  "search_rows query_ok db rid smode mmr_filter excl spec only_full =
     (if \<not> query_ok then SearchFailed
      else case search_where db rid smode mmr_filter excl spec only_full of
        None \<Rightarrow> MmrUnavailable
      | Some ps \<Rightarrow> (if run_query ps db = [] then NoResults else Found (run_query ps db)))"

text \<open>Lines 872 to 879: the line and the button of one player found.\<close>

definition result_label :: "profile_row \<Rightarrow> ustr" where
  "result_label r =
     (if truthy (username r) then asc ''@'' @ str_of (username r)
      else asc ''ID '' @ py_str_int (user_id r))"

definition result_line :: "profile_row \<Rightarrow> ustr" where
  "result_line r =
     T_res_user @ result_label r @ T_res_pos @ or_else (position r) DASH
     @ T_res_mode @ or_else (mode r) DASH
     @ T_res_mmr @ (case mmr r of None \<Rightarrow> DASH | Some m \<Rightarrow> py_str_int m)
     @ asc '' | '' @ (if int_truthy (full_party r) then T_handshake else DASH)"

definition result_button :: "profile_row \<Rightarrow> button" where
  "result_button r =
     (if truthy (username r) then UrlButton (asc ''https://t.me/'' @ str_of (username r))
      else UrlButton (asc ''tg://user?id='' @ py_str_int (user_id r)))"

text \<open>
  \<open>perform_search_and_reply\<close>: one message, sent by \<open>send\<close> (the edit of the query's message,
  or for the custom delta a new message). The transport is taken to deliver it.
\<close>

definition perform_search_and_reply ::
  "(ustr \<Rightarrow> keyboard \<Rightarrow> out) \<Rightarrow> bool \<Rightarrow> profile_row list \<Rightarrow> int \<Rightarrow> ustr option \<Rightarrow> int option \<Rightarrow>
   bool option \<Rightarrow> ustr option \<Rightarrow> bool option \<Rightarrow> out" where
  "perform_search_and_reply send query_ok db rid smode mmr_filter excl spec only_full =
     (case search_rows query_ok db rid smode mmr_filter excl spec only_full of
        MmrUnavailable \<Rightarrow> send T_search_need_mmr get_main_keyboard
      | SearchFailed \<Rightarrow> send T_search_error get_main_keyboard
      | NoResults \<Rightarrow> send T_no_results get_main_keyboard
      | Found rows \<Rightarrow>
          send (T_results_head @ py_join ([10, 10]) (map result_line rows) @ T_results_end)
               (ResultsKeyboard (take 30 (map result_button rows @ [MenuButton]))))"

section \<open>The button handler (lines 387 to 670)\<close>

text \<open>
  The handler of every callback query, whatever the state of the conversation (lines 962
  to 975). It is given the user's id and Telegram username, the token \<open>data\<close> of the
  button, the session and the table; \<open>upsert_ok\<close> and \<open>query_ok\<close> say whether the
  writes and the search succeed. An exception the source does not catch is \<open>Inl\<close>. Each
  definition below is one \<open>if\<close> block of the source.
\<close>

definition done_with :: "user_data \<Rightarrow> profile_row list \<Rightarrow> out \<Rightarrow> conv_state \<Rightarrow> py_error + outcome"
  where
  "done_with ud db msg st = Inr \<lparr>new_ud = ud, new_db = db, sent = [msg], ret = st\<rparr>"

text \<open>Lines 396 to 399.\<close>

definition on_go_back :: "int \<Rightarrow> user_data \<Rightarrow> profile_row list \<Rightarrow> py_error + outcome" where
  "on_go_back uid ud db =
     (case render_prev (fst (pop_back ud)) True uid (snd (pop_back ud)) db of
        Inl e \<Rightarrow> Inl e
      | Inr (ud', msg) \<Rightarrow> done_with ud' db msg END)"

text \<open>Lines 402 to 410.\<close>

definition on_main_menu :: "user_data \<Rightarrow> profile_row list \<Rightarrow> py_error + outcome" where
  "on_main_menu ud db =
     done_with (pop_search_fields (clear_back ud)) db
       (EditMessage T_main_menu get_main_keyboard) END"

text \<open>Lines 413 to 438.\<close>

definition profile_text :: "profile_row option \<Rightarrow> ustr" where
  "profile_text profile =
     T_profile_head
     @ T_profile_pos @ or_else (case profile of None \<Rightarrow> None | Some p \<Rightarrow> position p) DASH @ [10]
     @ T_profile_mode @ or_else (case profile of None \<Rightarrow> None | Some p \<Rightarrow> mode p) DASH @ [10]
     @ T_profile_mmr
     @ (case (case profile of None \<Rightarrow> None | Some p \<Rightarrow> mmr p) of
          None \<Rightarrow> DASH | Some m \<Rightarrow> py_str_int m) @ [10]
     @ (if truthy (case profile of None \<Rightarrow> None | Some p \<Rightarrow> username p)
        then T_profile_username @ str_of (case profile of None \<Rightarrow> None | Some p \<Rightarrow> username p)
             @ [10]
        else [])
     @ T_profile_status @ T_profile_full"

definition on_my_profile :: "int \<Rightarrow> user_data \<Rightarrow> profile_row list \<Rightarrow> py_error + outcome" where
  "on_my_profile uid ud db =
     (let profile = get_profile db uid;
          onl = (case profile of None \<Rightarrow> False | Some p \<Rightarrow> profile_online p);
          full = (case profile of None \<Rightarrow> False | Some p \<Rightarrow> profile_full_party p);
          text = profile_text profile
      in done_with (store_last_text ud (asc ''PROFILE'') text) db
           (EditMessage text (profile_edit_keyboard_dynamic onl full)) END)"

text \<open>Lines 441 to 461.\<close>

definition on_toggle_online ::
  "bool \<Rightarrow> int \<Rightarrow> ustr option \<Rightarrow> user_data \<Rightarrow> profile_row list \<Rightarrow> py_error + outcome" where
  "on_toggle_online upsert_ok uid uname ud db =
     (let current_online = (case get_profile db uid of None \<Rightarrow> False | Some p \<Rightarrow> profile_online p);
          new_online = (\<not> current_online)
      in if \<not> upsert_ok
         then done_with ud db (EditMessage T_toggle_online_error get_main_keyboard) END
         else
           (let db' = upsert_profile db uid None None None uname
                        (Some (if new_online then 1 else 0)) None;
                text = (if new_online then T_online_on else T_online_off);
                full = (case get_profile db' uid of None \<Rightarrow> False | Some p \<Rightarrow> profile_full_party p)
            in done_with (store_last_text ud (asc ''PROFILE'') text) db'
                 (EditMessage text (profile_edit_keyboard_dynamic new_online full)) END))"

text \<open>Lines 464 to 484.\<close>

definition on_toggle_fullparty ::
  "bool \<Rightarrow> int \<Rightarrow> ustr option \<Rightarrow> user_data \<Rightarrow> profile_row list \<Rightarrow> py_error + outcome" where
  "on_toggle_fullparty upsert_ok uid uname ud db =
     (let current = (case get_profile db uid of None \<Rightarrow> False | Some p \<Rightarrow> profile_full_party p);
          new = (\<not> current)
      in if \<not> upsert_ok
         then done_with ud db (EditMessage T_toggle_full_error get_main_keyboard) END
         else
           (let db' = upsert_profile db uid None None None uname None
                        (Some (if new then 1 else 0));
                text = (if new then T_full_on else T_full_off);
                onl = (case get_profile db' uid of None \<Rightarrow> False | Some p \<Rightarrow> profile_online p)
            in done_with (store_last_text ud (asc ''PROFILE'') text) db'
                 (EditMessage text (profile_edit_keyboard_dynamic onl new)) END))"

text \<open>Lines 487 to 493.\<close>

definition on_edit_position :: "user_data \<Rightarrow> profile_row list \<Rightarrow> py_error + outcome" where
  "on_edit_position ud db =
     done_with (store_last_text (push_back ud (asc ''PROFILE'')) (asc ''POSITION'') T_edit_position)
       db (EditMessage T_edit_position BackMenuKeyboard) POSITION"

text \<open>Lines 495 to 500.\<close>

definition on_edit_mode :: "user_data \<Rightarrow> profile_row list \<Rightarrow> py_error + outcome" where
  "on_edit_mode ud db =
     done_with (store_last_text (push_back ud (asc ''PROFILE'')) (asc ''MODE'') T_edit_mode)
       db (EditMessage T_edit_mode (ModeSelectionKeyboard (asc ''setmode_'') True)) MODE"

text \<open>Lines 502 to 509.\<close>

definition on_edit_mmr :: "user_data \<Rightarrow> profile_row list \<Rightarrow> py_error + outcome" where
  "on_edit_mmr ud db =
     done_with (store_last_text (push_back ud (asc ''PROFILE'')) (asc ''MMR'') T_edit_mmr)
       db (EditMessage T_edit_mmr BackMenuCancelKeyboard) MMR"

text \<open>Lines 512 to 526.\<close>

definition on_setmode ::
  "bool \<Rightarrow> int \<Rightarrow> ustr option \<Rightarrow> ustr \<Rightarrow> user_data \<Rightarrow> profile_row list \<Rightarrow> py_error + outcome" where
  "on_setmode upsert_ok uid uname data ud db =
     (let mode_name = drop (length (asc ''setmode_'')) data
      in if \<not> upsert_ok
         then done_with ud db (EditMessage T_mode_save_error get_main_keyboard) END
         else
           (let db' = upsert_profile db uid None (Some mode_name) None uname None None;
                onl = (case get_profile db' uid of None \<Rightarrow> False | Some p \<Rightarrow> profile_online p);
                full = (case get_profile db' uid of None \<Rightarrow> False | Some p \<Rightarrow> profile_full_party p);
                text = T_mode_saved @ mode_name
            in done_with (store_last_text ud (asc ''PROFILE'') text) db'
                 (EditMessage text (profile_edit_keyboard_dynamic onl full)) END))"

text \<open>Lines 529 to 547.\<close>

definition set_default_exclude :: "user_data \<Rightarrow> user_data" where
  "set_default_exclude ud =
     (case exclude_position ud of None \<Rightarrow> ud\<lparr>exclude_position := Some True\<rparr> | Some b \<Rightarrow> ud)"

definition on_search_party :: "int \<Rightarrow> user_data \<Rightarrow> profile_row list \<Rightarrow> py_error + outcome" where
  "on_search_party uid ud db =
     (if \<not> truthy (requester_pos db uid)
      then done_with ud db (EditMessage T_need_position SetPositionKeyboard) END
      else
        (let ud1 = set_default_exclude (ud\<lparr>own_position := requester_pos db uid\<rparr>);
             ud2 = ud1\<lparr>specific_position := None, only_full_party := None\<rparr>;
             ud3 = push_back (clear_back ud2) (asc ''MAIN_MENU'')
         in done_with (store_last_text ud3 (asc ''SEARCH_MODE'') T_search_mode) db
              (EditMessage T_search_mode (ModeSelectionKeyboard (asc ''mode_'') True)) SEARCH_MODE))"

text \<open>Lines 550 to 563.\<close>

definition on_mode :: "ustr \<Rightarrow> user_data \<Rightarrow> profile_row list \<Rightarrow> py_error + outcome" where
  "on_mode data ud db =
     (let mode_name = drop (length (asc ''mode_'')) data
      in if \<not> truthy (own_position ud)
         then done_with ud db (EditMessage T_need_own_position get_main_keyboard) END
         else
           (let ud1 = set_default_exclude
                        ((push_back ud (asc ''SEARCH_MODE''))\<lparr>search_mode := Some mode_name\<rparr>);
                ud2 = store_last_text ud1 (asc ''SEARCH_POS_OPTION'') T_search_pos_option
            in done_with ud2 db
                 (EditMessage T_search_pos_option (search_pos_option_keyboard_dynamic ud2))
                 SEARCH_POS_OPTION))"

text \<open>Lines 566 to 574.\<close>

definition on_toggle_exclude_position :: "user_data \<Rightarrow> profile_row list \<Rightarrow> py_error + outcome"
  where
  "on_toggle_exclude_position ud db =
     (let cur = exclude_position ud;
          new = (\<not> (case cur of None \<Rightarrow> True | Some b \<Rightarrow> b));
          ud1 = store_last_text (ud\<lparr>exclude_position := Some new\<rparr>) (asc ''SEARCH_POS_OPTION'')
                  T_toggle_exclude
      in done_with ud1 db (EditMessage T_toggle_exclude (search_pos_option_keyboard_dynamic ud1))
           END)"

text \<open>Lines 577 to 582.\<close>

definition on_start_search :: "user_data \<Rightarrow> profile_row list \<Rightarrow> py_error + outcome" where
  "on_start_search ud db =
     done_with
       (store_last_text (push_back ud (asc ''SEARCH_POS_OPTION'')) (asc ''SEARCH_FULL_OPTION'')
          T_search_full_option)
       db (EditMessage T_search_full_option (SearchFullOptionKeyboard True)) SEARCH_FULL_OPTION"

text \<open>Lines 584 to 589.\<close>

definition on_spec_position :: "user_data \<Rightarrow> profile_row list \<Rightarrow> py_error + outcome" where
  "on_spec_position ud db =
     done_with
       (store_last_text (push_back ud (asc ''SEARCH_POS_OPTION'')) (asc ''SELECT_POSITION'')
          T_select_position)
       db (EditMessage T_select_position SelectPositionKeyboard) SELECT_POSITION"

text \<open>Lines 591 to 603.\<close>

definition on_selectpos :: "ustr \<Rightarrow> user_data \<Rightarrow> profile_row list \<Rightarrow> py_error + outcome" where
  "on_selectpos data ud db =
     (case POSITIONS (split_underscore_1 data) of
        None \<Rightarrow> done_with ud db (EditMessage T_bad_position get_main_keyboard) END
      | Some pos_name \<Rightarrow>
          (let ud1 = ud\<lparr>specific_position := Some pos_name, exclude_position := None\<rparr>;
               ud2 = push_back ud1 (asc ''SELECT_POSITION'')
           in done_with (store_last_text ud2 (asc ''SEARCH_FULL_OPTION'') T_search_full_option) db
                (EditMessage T_search_full_option (SearchFullOptionKeyboard True))
                SEARCH_FULL_OPTION))"

text \<open>Lines 606 to 612.\<close>

definition on_only_full_yes :: "user_data \<Rightarrow> profile_row list \<Rightarrow> py_error + outcome" where
  "on_only_full_yes ud db =
     done_with
       (store_last_text (push_back (ud\<lparr>only_full_party := Some True\<rparr>) (asc ''SEARCH_FULL_OPTION''))
          (asc ''SEARCH_MMR'') T_search_mmr)
       db (EditMessage T_only_full_yes SearchMmrKeyboard) SEARCH_MMR"

text \<open>Lines 614 to 620.\<close>

definition on_only_full_no :: "user_data \<Rightarrow> profile_row list \<Rightarrow> py_error + outcome" where
  "on_only_full_no ud db =
     done_with
       (store_last_text (push_back (ud\<lparr>only_full_party := Some False\<rparr>) (asc ''SEARCH_FULL_OPTION''))
          (asc ''SEARCH_MMR'') T_search_mmr)
       db (EditMessage T_only_full_no SearchMmrKeyboard) SEARCH_MMR"

text \<open>
  Lines 624 to 629 (and 648 to 653, 758 to 774): the search with the choices of the
  session, \<open>exclude_position\<close> read with the default True and \<open>only_full_party\<close> with
  the default False.
\<close>

definition session_search ::
  "(ustr \<Rightarrow> keyboard \<Rightarrow> out) \<Rightarrow> bool \<Rightarrow> int \<Rightarrow> int option \<Rightarrow> user_data \<Rightarrow> profile_row list \<Rightarrow> out"
  where
  "session_search send query_ok uid mmr_filter ud db =
     perform_search_and_reply send query_ok db uid (search_mode ud) mmr_filter
       (Some (exclude_or_default ud)) (specific_position ud)
       (Some (case only_full_party ud of None \<Rightarrow> False | Some b \<Rightarrow> b))"

text \<open>Lines 623 to 636.\<close>

definition on_mmr_none :: "bool \<Rightarrow> int \<Rightarrow> user_data \<Rightarrow> profile_row list \<Rightarrow> py_error + outcome"
  where
  "on_mmr_none query_ok uid ud db =
     done_with (clear_back (pop_search_fields ud)) db
       (session_search EditMessage query_ok uid None ud db) END"

text \<open>Lines 638 to 660.\<close>

definition on_delta :: "bool \<Rightarrow> int \<Rightarrow> ustr \<Rightarrow> user_data \<Rightarrow> profile_row list \<Rightarrow> py_error + outcome"
  where
  "on_delta query_ok uid data ud db =
     (case py_int (split_underscore_1 data) of
        None \<Rightarrow> Inl ValueError
      | Some delta \<Rightarrow>
          (case requester_mmr db uid of
             None \<Rightarrow> done_with ud db (EditMessage T_need_mmr SetMmrKeyboard) END
           | Some user_mmr \<Rightarrow>
               done_with (clear_back (pop_search_fields ud)) db
                 (session_search EditMessage query_ok uid (Some delta) ud db) END))"

text \<open>Lines 662 to 668.\<close>

definition on_delta_custom :: "user_data \<Rightarrow> profile_row list \<Rightarrow> py_error + outcome" where
  "on_delta_custom ud db =
     done_with (store_last_text (push_back ud (asc ''SEARCH_MMR'')) (asc ''SEARCH_MMR'') T_delta_custom)
       db (EditMessage T_delta_custom BackMenuKeyboard) SEARCH_MMR"

text \<open>The chain of tests on \<open>data\<close>, in the order of the source; the last line is line 670.\<close>

definition button_handler ::
  "bool \<Rightarrow> bool \<Rightarrow> int \<Rightarrow> ustr option \<Rightarrow> ustr \<Rightarrow> user_data \<Rightarrow> profile_row list \<Rightarrow> py_error + outcome"
  where
  "button_handler upsert_ok query_ok uid uname data ud db =
     (if data = asc ''go_back'' then on_go_back uid ud db
      else if data = asc ''main_menu'' then on_main_menu ud db
      else if data = asc ''my_profile'' then on_my_profile uid ud db
      else if data = asc ''toggle_online'' then on_toggle_online upsert_ok uid uname ud db
      else if data = asc ''toggle_fullparty'' then on_toggle_fullparty upsert_ok uid uname ud db
      else if data = asc ''edit_position'' then on_edit_position ud db
      else if data = asc ''edit_mode'' then on_edit_mode ud db
      else if data = asc ''edit_mmr'' then on_edit_mmr ud db
      else if startswith data (asc ''setmode_'') then on_setmode upsert_ok uid uname data ud db
      else if data = asc ''search_party'' then on_search_party uid ud db
      else if startswith data (asc ''mode_'') then on_mode data ud db
      else if data = asc ''toggle_exclude_position'' then on_toggle_exclude_position ud db
      else if data = asc ''start_search'' then on_start_search ud db
      else if data = asc ''spec_position'' then on_spec_position ud db
      else if startswith data (asc ''selectpos_'') then on_selectpos data ud db
      else if data = asc ''only_full_yes'' then on_only_full_yes ud db
      else if data = asc ''only_full_no'' then on_only_full_no ud db
      else if data = asc ''mmr_none'' then on_mmr_none query_ok uid ud db
      else if startswith data (asc ''delta_'') then on_delta query_ok uid data ud db
      else if data = asc ''delta_custom'' then on_delta_custom ud db
      else Inr \<lparr>new_ud = ud, new_db = db, sent = [], ret = END\<rparr>)"

section \<open>The text handlers (lines 676 to 781)\<close>

text \<open>Lines 680, 707 and 736: the stripped text, in lower case, is one of the two words.\<close>

definition is_cancel :: "ustr \<Rightarrow> bool" where
  "is_cancel txt = (py_lower txt = CANCEL_RU \<or> py_lower txt = asc ''cancel'')"

text \<open>Lines 681 to 683: back to the step on top of the stack, by a new message.\<close>

definition on_cancel_text :: "int \<Rightarrow> user_data \<Rightarrow> profile_row list \<Rightarrow> py_error + outcome" where
  "on_cancel_text uid ud db =
     (case render_prev (fst (pop_back ud)) False uid (snd (pop_back ud)) db of
        Inl e \<Rightarrow> Inl e
      | Inr (ud', msg) \<Rightarrow> done_with ud' db msg END)"

text \<open>\<open>get_position\<close>, the handler of a text in the state POSITION (lines 676 to 700).\<close>

definition get_position ::
  "bool \<Rightarrow> int \<Rightarrow> ustr option \<Rightarrow> ustr \<Rightarrow> user_data \<Rightarrow> profile_row list \<Rightarrow> py_error + outcome" where
  "get_position upsert_ok uid uname message_text ud db =
     (let txt = py_strip message_text
      in if is_cancel txt then on_cancel_text uid ud db
         else case POSITIONS txt of
           None \<Rightarrow> done_with ud db (ReplyText T_position_invalid BackMenuKeyboard) POSITION
         | Some position_name \<Rightarrow>
             if \<not> upsert_ok
             then done_with ud db (ReplyText T_save_error get_main_keyboard) END
             else done_with ud
                    (upsert_profile db uid (Some position_name) None None uname None None)
                    (ReplyText (T_position_saved @ position_name @ T_position_saved_end)
                       get_main_keyboard)
                    END)"


text \<open>
  \<open>get_search_mmr_custom\<close>, the handler of a text in the state SEARCH_MMR (lines 732 to
  781).
\<close>

definition get_search_mmr_custom ::
  "bool \<Rightarrow> int \<Rightarrow> ustr \<Rightarrow> user_data \<Rightarrow> profile_row list \<Rightarrow> py_error + outcome" where
  "get_search_mmr_custom query_ok uid message_text ud db =
     (let txt = py_strip message_text
      in if is_cancel txt then on_cancel_text uid ud db
         else case py_int txt of
           None \<Rightarrow> done_with ud db (ReplyText T_delta_invalid BackMenuKeyboard) SEARCH_MMR
         | Some delta \<Rightarrow>
             if delta \<le> 0
             then done_with ud db (ReplyText T_delta_invalid BackMenuKeyboard) SEARCH_MMR
             else case requester_mmr db uid of
               None \<Rightarrow> done_with ud db (ReplyText T_need_mmr SetMmrKeyboard) END
             | Some user_mmr \<Rightarrow>
                 done_with (clear_back (pop_search_fields ud)) db
                   (session_search ReplyText query_ok uid (Some delta) ud db) END)"

section \<open>The protected dump (lines 901 to 939)\<close>

text \<open>Lines 931 to 934: the line of one row.\<close>

definition dump_line :: "profile_row \<Rightarrow> ustr" where
  "dump_line r =
     py_str_int (user_id r)
     @ asc '' | pos='' @ or_else (position r) DASH
     @ asc '' | mode='' @ or_else (mode r) DASH
     @ asc '' | mmr='' @ (case mmr r of None \<Rightarrow> DASH | Some m \<Rightarrow> py_str_int m)
     @ asc '' | username='' @ or_else (username r) DASH
     @ asc '' | online='' @ (if int_truthy (online r) then asc ''1'' else asc ''0'')
     @ asc '' | full='' @ (if int_truthy (full_party r) then asc ''1'' else asc ''0'')"

text \<open>Line 916: the query reads at most 500 rows.\<close>

definition dump_rows :: "profile_row list \<Rightarrow> profile_row list" where
  "dump_rows db = take 500 db"

definition chunk_size :: nat where
  "chunk_size = 4000"

text \<open>\<open>range(0, n, step)\<close>, for a positive step.\<close>

definition py_range_step :: "nat \<Rightarrow> nat \<Rightarrow> nat list" where
  "py_range_step n step = map (\<lambda>k. k * step) [0 ..< (n + step - 1) div step]"

text \<open>Lines 936 to 939: the slices \<open>text[i:i+chunk_size]\<close>, one message each.\<close>

definition dump_chunks :: "ustr \<Rightarrow> ustr list" where
  "dump_chunks text =
     map (\<lambda>i. take chunk_size (drop i text)) (py_range_step (length text) chunk_size)"

text \<open>
  \<open>cmd_dump_profiles_protected\<close>: the messages sent to the caller, in their order.
  \<open>read_ok\<close> says whether the table can be read.
\<close>

definition cmd_dump_profiles_protected :: "bool \<Rightarrow> int \<Rightarrow> profile_row list \<Rightarrow> out list" where
  "cmd_dump_profiles_protected read_ok caller db =
     (if caller \<noteq> ADMIN_DUMP_USER_ID then [ReplyText T_no_access NoKeyboard]
      else if \<not> read_ok then [ReplyText T_dump_read_error NoKeyboard]
      else if dump_rows db = [] then [ReplyText T_dump_empty NoKeyboard]
      else map (\<lambda>c. ReplyText c NoKeyboard)
             (dump_chunks (py_join [10] (map dump_line (dump_rows db)))))"

section \<open>The step a message renders\<close>




section \<open>An example table\<close>

text \<open>
  The requester R (Mid, MMR 3000, online) and the players U1 (Carry, 3100), U2 (Mid, 3050),
  U3 (Offlane, offline), all of the mode Ranked; U4 is online with no MMR, and N is a
  requester with no MMR.
\<close>

definition ex_R :: profile_row where
  "ex_R = \<lparr>user_id = 100, position = Some (asc ''Mid''), mode = Some (asc ''Ranked''),
     mmr = Some 3000, username = Some (asc ''requester''), online = Some 1,
     full_party = Some 0\<rparr>"

definition ex_U1 :: profile_row where
  "ex_U1 = \<lparr>user_id = 101, position = Some (asc ''Carry''), mode = Some (asc ''Ranked''),
     mmr = Some 3100, username = None, online = Some 1, full_party = Some 0\<rparr>"

definition ex_U2 :: profile_row where
  "ex_U2 = \<lparr>user_id = 102, position = Some (asc ''Mid''), mode = Some (asc ''Ranked''),
     mmr = Some 3050, username = None, online = Some 1, full_party = Some 0\<rparr>"

definition ex_U3 :: profile_row where
  "ex_U3 = \<lparr>user_id = 103, position = Some (asc ''Offlane''), mode = Some (asc ''Ranked''),
     mmr = None, username = None, online = Some 0, full_party = Some 0\<rparr>"

definition ex_U4 :: profile_row where
  "ex_U4 = \<lparr>user_id = 104, position = None, mode = Some (asc ''ranked''),
     mmr = None, username = None, online = Some 1, full_party = Some 1\<rparr>"

definition ex_N :: profile_row where
  "ex_N = \<lparr>user_id = 200, position = Some (asc ''Mid''), mode = None,
     mmr = None, username = None, online = Some 1, full_party = Some 0\<rparr>"

definition ex_db :: "profile_row list" where
  "ex_db = [ex_R, ex_U1, ex_U2, ex_U3, ex_U4, ex_N]"

text \<open>A session in the middle of a search, at the step of the MMR options.\<close>

definition ex_ud :: user_data where
  "ex_ud = \<lparr>back_stack = [asc ''MAIN_MENU'', asc ''SEARCH_MODE'', asc ''SEARCH_POS_OPTION'',
                 asc ''SEARCH_FULL_OPTION''],
     search_mode = Some (asc ''Ranked''), exclude_position = Some False,
     specific_position = None, only_full_party = Some False,
     own_position = Some (asc ''Mid''), last_text = Map.empty\<rparr>"



text \<open>A table of 501 profiles, with the ids 0 to 500.\<close>

definition mk_row :: "nat \<Rightarrow> profile_row" where
  "mk_row i = \<lparr>user_id = int i, position = None, mode = None, mmr = None, username = None,
     online = Some 1, full_party = Some 0\<rparr>"

definition big_db :: "profile_row list" where
  "big_db = map mk_row [0 ..< 501]"


section \<open>Facts about the strings and the dispatch\<close>

lemma asc_inj [simp]: "asc s = asc t \<longleftrightarrow> s = t"
  by (simp add: asc_def inj_map_eq_map inj_def)

lemma asc_Nil [simp]: "asc s = [] \<longleftrightarrow> s = []"
  by (simp add: asc_def)

lemma Nil_asc [simp]: "[] = asc s \<longleftrightarrow> s = []"
  by (simp add: asc_def)

lemma startswith_asc [simp]: "startswith (asc s) (asc p) \<longleftrightarrow> take (length p) s = p"
proof -
  have "take (length (asc p)) (asc s) = asc (take (length p) s)"
    by (simp add: asc_def take_map)
  then show ?thesis by (simp add: startswith_def)
qed

lemmas ex_defs =
  ex_db_def ex_R_def ex_U1_def ex_U2_def ex_U3_def ex_U4_def ex_N_def

lemmas search_defs =
  search_rows_def search_where_def base_where_def requester_pos_def requester_mmr_def
  get_profile_def run_query_def holds_all_def truthy_def str_of_def sql_lower_def
  mmr_window_def

section \<open>The search\<close>

lemma run_query_sound: "r \<in> set (run_query ps db) \<Longrightarrow> holds_all ps r \<and> r \<in> set db"
  by (auto simp: run_query_def dest: in_set_takeD)

lemma holds_all_append [simp]: "holds_all (ps @ qs) r \<longleftrightarrow> holds_all ps r \<and> holds_all qs r"
  by (simp add: holds_all_def)

lemma base_where_core:
  "holds_all (base_where db rid sm ex sp fp) r \<Longrightarrow> user_id r \<noteq> rid \<and> online r = Some 1"
  by (simp add: base_where_def holds_all_def)

lemma search_rows_Found:
  "search_rows ok db rid sm mf ex sp fp = Found rows \<Longrightarrow>
   \<exists>ps. search_where db rid sm mf ex sp fp = Some ps \<and> rows = run_query ps db"
  by (auto simp: search_rows_def split: if_splits option.splits)

lemma search_where_base:
  "search_where db rid sm mf ex sp fp = Some ps \<Longrightarrow>
   holds_all ps r \<Longrightarrow> holds_all (base_where db rid sm ex sp fp) r"
  by (auto simp: search_where_def split: option.splits)

text \<open>
  C1. Whatever the mode, the position choice, the full-party choice and the MMR filter,
  every row a search returns is a row of the table other than the requester's, and its
  \<open>online\<close> column is 1: the requester's own id is never in the result, and no profile
  whose \<open>online\<close> is false is.
\<close>

theorem search_never_returns_self_or_offline:
  assumes "search_rows ok db rid sm mf ex sp fp = Found rows"
  shows "\<forall>r \<in> set rows. user_id r \<noteq> rid \<and> online r = Some 1 \<and> profile_online r \<and> r \<in> set db"
proof
  fix r assume r: "r \<in> set rows"
  from assms obtain ps where ps: "search_where db rid sm mf ex sp fp = Some ps"
    and rows: "rows = run_query ps db"
    using search_rows_Found by blast
  from r rows have h: "holds_all ps r" and m: "r \<in> set db"
    using run_query_sound by blast+
  from search_where_base [OF ps h] have "user_id r \<noteq> rid \<and> online r = Some 1"
    by (rule base_where_core)
  with m show "user_id r \<noteq> rid \<and> online r = Some 1 \<and> profile_online r \<and> r \<in> set db"
    by (simp add: profile_online_def int_truthy_def)
qed

theorem search_never_returns_self_or_offline_witness:
  "search_rows True ex_db 100 (Some (asc ''Ranked'')) None (Some True) None (Some False)
     = Found [ex_U1, ex_U4]
   \<and> user_id ex_U1 \<noteq> 100 \<and> profile_online ex_U1 \<and> user_id ex_U4 \<noteq> 100 \<and> profile_online ex_U4
   \<and> \<not> profile_online ex_U3"
proof -
  have e: "search_rows True ex_db 100 (Some (asc ''Ranked'')) None (Some True) None (Some False)
     = Found [ex_U1, ex_U4]"
    by (simp add: search_defs ex_defs asc_def)
  have "\<not> profile_online ex_U3"
    by (simp add: profile_online_def int_truthy_def ex_U3_def)
  with e search_never_returns_self_or_offline [OF e] show ?thesis by simp
qed



lemma search_rows_ok:
  "search_where db rid sm mf ex sp fp = Some ps \<Longrightarrow>
   search_rows True db rid sm mf ex sp fp
     = (if run_query ps db = [] then NoResults else Found (run_query ps db))"
  by (simp add: search_rows_def)

lemma holds_MmrBetween:
  "holds (MmrBetween lo hi) r \<longleftrightarrow> (\<exists>m. mmr r = Some m \<and> lo \<le> m \<and> m \<le> hi)"
  by (cases "mmr r") auto

text \<open>
  C3. With the MMR filter \<open>d\<close> set and the requester's MMR \<open>rm\<close> known, the clause of the
  search is the other conditions and one condition on the MMR, which holds of exactly the
  rows whose MMR is set and lies between \<open>max 0 (rm - d)\<close> and \<open>rm + d\<close>, both ends
  included, and the search returns the first 30 rows that pass. For 3000 and 250 the window
  is 2750 to 3250; for 100 and 250 it is 0 to 350.
\<close>

theorem mmr_filter_window:
  assumes "requester_mmr db rid = Some rm"
  shows "search_where db rid sm (Some d) ex sp fp
           = Some (base_where db rid sm ex sp fp @ [MmrBetween (max 0 (rm - d)) (rm + d)])
         \<and> run_query (base_where db rid sm ex sp fp @ [MmrBetween (max 0 (rm - d)) (rm + d)]) db
           = take 30 (filter (\<lambda>r. holds_all (base_where db rid sm ex sp fp) r
                 \<and> (\<exists>m. mmr r = Some m \<and> max 0 (rm - d) \<le> m \<and> m \<le> rm + d)) db)
         \<and> search_rows True db rid sm (Some d) ex sp fp
           = (if run_query (base_where db rid sm ex sp fp
                   @ [MmrBetween (max 0 (rm - d)) (rm + d)]) db = []
              then NoResults
              else Found (run_query (base_where db rid sm ex sp fp
                   @ [MmrBetween (max 0 (rm - d)) (rm + d)]) db))
         \<and> mmr_window 3000 250 = (2750, 3250) \<and> mmr_window 100 250 = (0, 350)"
proof -
  let ?ps = "base_where db rid sm ex sp fp @ [MmrBetween (max 0 (rm - d)) (rm + d)]"
  have w: "search_where db rid sm (Some d) ex sp fp = Some ?ps"
    using assms by (simp add: search_where_def mmr_window_def)
  have q: "run_query ?ps db
           = take 30 (filter (\<lambda>r. holds_all (base_where db rid sm ex sp fp) r
                 \<and> (\<exists>m. mmr r = Some m \<and> max 0 (rm - d) \<le> m \<and> m \<le> rm + d)) db)"
  proof -
    have "holds_all ?ps = (\<lambda>r. holds_all (base_where db rid sm ex sp fp) r
                 \<and> (\<exists>m. mmr r = Some m \<and> max 0 (rm - d) \<le> m \<and> m \<le> rm + d))"
      by (rule ext) (simp add: holds_all_def holds_MmrBetween del: holds.simps)
    then show ?thesis by (simp add: run_query_def)
  qed
  have e: "mmr_window 3000 250 = (2750, 3250) \<and> mmr_window 100 250 = (0, 350)"
    by (simp add: mmr_window_def)
  from w q e search_rows_ok [OF w] show ?thesis by simp
qed

theorem mmr_filter_window_witness:
  "requester_mmr ex_db 100 = Some 3000
   \<and> search_where ex_db 100 None (Some 75) (Some False) None (Some False)
       = Some [UserIdNe 100, OnlineEq1, MmrBetween 2925 3075]
   \<and> search_rows True ex_db 100 None (Some 75) (Some False) None (Some False) = Found [ex_U2]"
proof -
  have m: "requester_mmr ex_db 100 = Some 3000"
    by (simp add: requester_mmr_def get_profile_def ex_defs)
  have b: "base_where ex_db 100 None (Some False) None (Some False) = [UserIdNe 100, OnlineEq1]"
    by (simp add: base_where_def truthy_def)
  have r: "run_query [UserIdNe 100, OnlineEq1, MmrBetween 2925 3075] ex_db = [ex_U2]"
    by (simp add: run_query_def holds_all_def ex_defs)
  from mmr_filter_window [OF m, of None 75 "Some False" None "Some False"] m b r
  show ?thesis by simp
qed

text \<open>
  C10. With the MMR filter set, every row found has an MMR: the window condition holds of
  no row whose MMR is unset, while the condition that excludes the requester's position
  holds of a row whose position is unset. With no MMR filter the clause has no condition on
  the MMR, and whether a row passes does not depend on its MMR.
\<close>

theorem unset_mmr_and_the_filter:
  "(search_rows ok db rid sm (Some d) ex sp fp = Found rows \<longrightarrow> (\<forall>r \<in> set rows. mmr r \<noteq> None))
   \<and> (mmr r = None \<longrightarrow> \<not> holds (MmrBetween lo hi) r)
   \<and> (position r = None \<longrightarrow> holds (PositionNullOrNe p) r)
   \<and> search_where db rid sm None ex sp fp = Some (base_where db rid sm ex sp fp)
   \<and> holds_all (base_where db rid sm ex sp fp) (r\<lparr>mmr := m\<rparr>)
       = holds_all (base_where db rid sm ex sp fp) r"
proof -
  have a: "search_rows ok db rid sm (Some d) ex sp fp = Found rows \<longrightarrow>
           (\<forall>r \<in> set rows. mmr r \<noteq> None)"
  proof (intro impI ballI)
    fix x assume f: "search_rows ok db rid sm (Some d) ex sp fp = Found rows" and x: "x \<in> set rows"
    from f obtain ps where ps: "search_where db rid sm (Some d) ex sp fp = Some ps"
      and rows: "rows = run_query ps db"
      using search_rows_Found by blast
    from ps obtain lo hi where "ps = base_where db rid sm ex sp fp @ [MmrBetween lo hi]"
      by (auto simp: search_where_def split: option.splits)
    moreover from x rows have "holds_all ps x" using run_query_sound by blast
    ultimately have "holds (MmrBetween lo hi) x" by (simp add: holds_all_def)
    then show "mmr x \<noteq> None" by (cases "mmr x") auto
  qed
  have e: "holds_all (base_where db rid sm ex sp fp) (r\<lparr>mmr := m\<rparr>)
       = holds_all (base_where db rid sm ex sp fp) r"
    by (simp add: base_where_def holds_all_def)
  from a e show ?thesis by (simp add: search_where_def holds_MmrBetween)
qed

theorem unset_mmr_and_the_filter_witness:
  "mmr ex_U4 = None
   \<and> search_rows True ex_db 100 None (Some 500) (Some True) None (Some False)
       = Found [ex_U1]
   \<and> search_rows True ex_db 100 None None (Some True) None (Some False)
       = Found [ex_U1, ex_U4]
   \<and> mmr ex_U1 \<noteq> None
   \<and> position ex_U4 = None \<and> holds (PositionNullOrNe (asc ''Mid'')) ex_U4
   \<and> \<not> holds (MmrBetween 2500 3500) ex_U4"
proof -
  have f: "search_rows True ex_db 100 None (Some 500) (Some True) None (Some False)
       = Found [ex_U1]"
    by (simp add: search_defs ex_defs asc_def)
  have g: "search_rows True ex_db 100 None None (Some True) None (Some False)
       = Found [ex_U1, ex_U4]"
    by (simp add: search_defs ex_defs asc_def)
  have n: "mmr ex_U4 = None \<and> position ex_U4 = None" by (simp add: ex_U4_def)
  have k: "mmr ex_U1 \<noteq> None" by (simp add: ex_U1_def)
  from f g n k
    unset_mmr_and_the_filter [of True ex_db 100 None 500 "Some True" None "Some False"
      "[ex_U1]" ex_U4 2500 3500 "asc ''Mid''" None]
  show ?thesis by simp
qed

section \<open>The dispatch of the button handler\<close>


lemma startswith_split: "startswith data p \<Longrightarrow> \<exists>rest. data = p @ rest"
  by (metis startswith_def append_take_drop_id)

lemma bh_main_menu:
  "button_handler u q uid un (asc ''main_menu'') ud db = on_main_menu ud db"
  by (simp add: button_handler_def)

lemma bh_toggle_exclude:
  "button_handler u q uid un (asc ''toggle_exclude_position'') ud db
     = on_toggle_exclude_position ud db"
  by (simp add: button_handler_def)

lemma bh_mmr_none:
  "button_handler u q uid un (asc ''mmr_none'') ud db = on_mmr_none q uid ud db"
  by (simp add: button_handler_def)



lemma bh_delta:
  "button_handler u q uid un (asc ''delta_'' @ rest) ud db
     = on_delta q uid (asc ''delta_'' @ rest) ud db"
  by (simp add: button_handler_def startswith_def asc_def)

lemma bh_selectpos:
  "button_handler u q uid un (asc ''selectpos_'' @ rest) ud db
     = on_selectpos (asc ''selectpos_'' @ rest) ud db"
  by (simp add: button_handler_def startswith_def asc_def)

lemma split_delta [simp]: "split_underscore_1 (asc ''delta_'' @ rest) = rest"
  by (simp add: split_underscore_1_def asc_def)

lemma split_selectpos [simp]: "split_underscore_1 (asc ''selectpos_'' @ rest) = rest"
  by (simp add: split_underscore_1_def asc_def)


section \<open>The choices of a search\<close>


lemma POSITIONS_nonempty: "POSITIONS key = Some pos \<Longrightarrow> pos \<noteq> []"
  by (auto simp: POSITIONS_def split: if_splits)

lemma base_where_specific:
  "sp \<noteq> [] \<Longrightarrow>
   base_where db rid sm ex (Some sp) fp
     = [UserIdNe rid, OnlineEq1, PositionEq sp]
       @ (if truthy sm then [ModeLowerEq (str_of sm)] else [])
       @ (if fp = Some True then [FullPartyEq1] else [])"
  by (simp add: base_where_def truthy_def str_of_def)

text \<open>
  C2. With a specific position set (a non-empty string, as every value the handler stores
  is), the clause of the search asks for the position to be equal to it, and neither the
  clause nor the result of the search depends on the exclude flag: every row found has
  that position. Selecting a position, the token \<open>selectpos_\<close> followed by a key of
  POSITIONS, stores the key's label, which is not empty, as the specific position and
  removes the exclude flag from the session.
\<close>

theorem specific_position_overrides_exclusion:
  "(sp \<noteq> [] \<longrightarrow>
      search_where db rid sm mf ex (Some sp) fp = search_where db rid sm mf ex' (Some sp) fp
      \<and> search_rows ok db rid sm mf ex (Some sp) fp = search_rows ok db rid sm mf ex' (Some sp) fp
      \<and> base_where db rid sm ex (Some sp) fp
          = [UserIdNe rid, OnlineEq1, PositionEq sp]
            @ (if truthy sm then [ModeLowerEq (str_of sm)] else [])
            @ (if fp = Some True then [FullPartyEq1] else [])
      \<and> (search_rows ok db rid sm mf ex (Some sp) fp = Found rows
           \<longrightarrow> (\<forall>r \<in> set rows. position r = Some sp)))
   \<and> (POSITIONS key = Some pos \<longrightarrow>
        pos \<noteq> []
        \<and> (\<exists>r. button_handler u q uid un (asc ''selectpos_'' @ key) ud db = Inr r
              \<and> specific_position (new_ud r) = Some pos
              \<and> exclude_position (new_ud r) = None
              \<and> ret r = SEARCH_FULL_OPTION))"
proof -
  have A: "search_where db rid sm mf ex (Some sp) fp = search_where db rid sm mf ex' (Some sp) fp"
    if "sp \<noteq> []"
  proof -
    from that have "base_where db rid sm ex (Some sp) fp = base_where db rid sm ex' (Some sp) fp"
      by (simp add: base_where_specific)
    then show ?thesis by (simp add: search_where_def cong: option.case_cong)
  qed
  have B: "search_rows ok db rid sm mf ex (Some sp) fp = search_rows ok db rid sm mf ex' (Some sp) fp"
    if "sp \<noteq> []"
    using A [OF that] by (simp add: search_rows_def)
  have C: "\<forall>r \<in> set rows. position r = Some sp"
    if ne: "sp \<noteq> []" and f: "search_rows ok db rid sm mf ex (Some sp) fp = Found rows"
  proof
    fix r assume r: "r \<in> set rows"
    from f obtain ps where ps: "search_where db rid sm mf ex (Some sp) fp = Some ps"
      and rows: "rows = run_query ps db"
      using search_rows_Found by blast
    from r rows have "holds_all ps r" using run_query_sound by blast
    from search_where_base [OF ps this]
    have "holds_all (base_where db rid sm ex (Some sp) fp) r" .
    then show "position r = Some sp"
      by (simp add: base_where_specific [OF ne] holds_all_def)
  qed
  have D: "\<exists>r. button_handler u q uid un (asc ''selectpos_'' @ key) ud db = Inr r
              \<and> specific_position (new_ud r) = Some pos
              \<and> exclude_position (new_ud r) = None
              \<and> ret r = SEARCH_FULL_OPTION"
    if "POSITIONS key = Some pos"
    using that
    by (simp add: bh_selectpos on_selectpos_def done_with_def store_last_text_def push_back_def)
  from A B C D base_where_specific POSITIONS_nonempty show ?thesis by blast
qed

theorem specific_position_overrides_exclusion_witness:
  "asc ''Mid'' \<noteq> []
   \<and> search_rows True ex_db 100 (Some (asc ''Ranked'')) None (Some True) (Some (asc ''Mid''))
        (Some False) = Found [ex_U2]
   \<and> search_rows True ex_db 100 (Some (asc ''Ranked'')) None (Some False) (Some (asc ''Mid''))
        (Some False) = Found [ex_U2]
   \<and> position ex_U2 = Some (asc ''Mid'')
   \<and> POSITIONS (asc ''2'') = Some (asc ''Mid'')
   \<and> (\<exists>r. button_handler True True 100 None (asc ''selectpos_'' @ asc ''2'') ex_ud ex_db = Inr r
          \<and> specific_position (new_ud r) = Some (asc ''Mid'')
          \<and> exclude_position (new_ud r) = None)"
proof -
  have n: "asc ''Mid'' \<noteq> []" by simp
  have f: "search_rows True ex_db 100 (Some (asc ''Ranked'')) None (Some True)
             (Some (asc ''Mid'')) (Some False) = Found [ex_U2]"
    by (simp add: search_defs ex_defs asc_def)
  have p: "POSITIONS (asc ''2'') = Some (asc ''Mid'')" by (simp add: POSITIONS_def)
  have m: "position ex_U2 = Some (asc ''Mid'')" by (simp add: ex_U2_def)
  from n f p m
    specific_position_overrides_exclusion [where sp = "asc ''Mid''" and db = ex_db and rid = 100
      and sm = "Some (asc ''Ranked'')" and mf = None and ex = "Some True" and ex' = "Some False"
      and fp = "Some False" and ok = True and rows = "[ex_U2]" and key = "asc ''2''"
      and pos = "asc ''Mid''" and u = True and q = True and uid = 100 and un = None
      and ud = ex_ud]
  show ?thesis by auto
qed

lemma on_toggle_exclude_position_eq:
  "on_toggle_exclude_position ud db
     = Inr \<lparr>new_ud = ud\<lparr>exclude_position := Some (\<not> exclude_or_default ud),
                        last_text := (last_text ud)(asc ''SEARCH_POS_OPTION'' \<mapsto> T_toggle_exclude)\<rparr>,
            new_db = db,
            sent = [EditMessage T_toggle_exclude
                      (SearchPosOptionKeyboard (\<not> exclude_or_default ud))],
            ret = END\<rparr>"
  by (simp add: on_toggle_exclude_position_def done_with_def store_last_text_def Let_def
      search_pos_option_keyboard_dynamic_def exclude_or_default_def)

text \<open>
  C8. The toggle sets the exclude flag to the negation of its value, read as True when it
  is absent; a second toggle sets it back, so the flag read that way is what it was, and
  the stored flag is what it was when it was set. Each toggle leaves the stack, the other
  choices and the table as they are, shows the keyboard of the same step (the position
  options) with the new flag, caches the prompt under that step, and returns END, not the
  state of a later step.
\<close>

theorem toggle_exclude_twice:
  "\<exists>r1 r2.
     button_handler u q uid un (asc ''toggle_exclude_position'') ud db = Inr r1
     \<and> button_handler u q uid un (asc ''toggle_exclude_position'') (new_ud r1) (new_db r1) = Inr r2
     \<and> exclude_position (new_ud r1) = Some (\<not> exclude_or_default ud)
     \<and> exclude_position (new_ud r2) = Some (exclude_or_default ud)
     \<and> exclude_or_default (new_ud r2) = exclude_or_default ud
     \<and> back_stack (new_ud r1) = back_stack ud \<and> back_stack (new_ud r2) = back_stack ud
     \<and> ret r1 = END \<and> ret r2 = END
     \<and> sent r1 = [EditMessage T_toggle_exclude (SearchPosOptionKeyboard (\<not> exclude_or_default ud))]
     \<and> sent r2 = [EditMessage T_toggle_exclude (SearchPosOptionKeyboard (exclude_or_default ud))]
     \<and> last_text (new_ud r1) (asc ''SEARCH_POS_OPTION'') = Some T_toggle_exclude
     \<and> last_text (new_ud r2) (asc ''SEARCH_POS_OPTION'') = Some T_toggle_exclude
     \<and> new_db r1 = db \<and> new_db r2 = db
     \<and> search_mode (new_ud r2) = search_mode ud
     \<and> specific_position (new_ud r2) = specific_position ud
     \<and> only_full_party (new_ud r2) = only_full_party ud
     \<and> own_position (new_ud r2) = own_position ud"
  by (simp add: bh_toggle_exclude on_toggle_exclude_position_eq exclude_or_default_def)



lemma on_delta_no_mmr:
  "py_int rest = Some d \<Longrightarrow> requester_mmr db uid = None \<Longrightarrow>
   on_delta q uid (asc ''delta_'' @ rest) ud db
     = Inr \<lparr>new_ud = ud, new_db = db, sent = [EditMessage T_need_mmr SetMmrKeyboard], ret = END\<rparr>"
  by (simp add: on_delta_def done_with_def)

lemma texts_mmr_distinct:
  "T_search_need_mmr \<noteq> T_no_results \<and> T_need_mmr \<noteq> T_no_results"
  by (simp add: T_search_need_mmr_def T_no_results_def T_need_mmr_def)

text \<open>
  C6. When the requester has no MMR stored, a search with an MMR filter ends with the
  message that asks for the MMR: the source comes to no clause, so no query is run and
  the outcome is neither the empty result nor a list of rows. A delta button and a custom
  delta do not even start the search: each answers with the message that guides the user to
  set the MMR, next to the button that edits it. Both messages differ from the one for an
  empty result.
\<close>

theorem mmr_filter_without_own_mmr:
  assumes "requester_mmr db rid = None"
  shows "search_where db rid sm (Some d) ex sp fp = None
         \<and> search_rows True db rid sm (Some d) ex sp fp = MmrUnavailable
         \<and> perform_search_and_reply send True db rid sm (Some d) ex sp fp
             = send T_search_need_mmr get_main_keyboard
         \<and> (py_int rest = Some d \<longrightarrow>
              button_handler u q rid un (asc ''delta_'' @ rest) ud db
                = Inr \<lparr>new_ud = ud, new_db = db,
                       sent = [EditMessage T_need_mmr SetMmrKeyboard], ret = END\<rparr>)
         \<and> (py_int (py_strip inp) = Some d \<and> 0 < d \<and> \<not> is_cancel (py_strip inp) \<longrightarrow>
              get_search_mmr_custom q rid inp ud db
                = Inr \<lparr>new_ud = ud, new_db = db,
                       sent = [ReplyText T_need_mmr SetMmrKeyboard], ret = END\<rparr>)
         \<and> T_search_need_mmr \<noteq> T_no_results \<and> T_need_mmr \<noteq> T_no_results"
proof -
  have w: "search_where db rid sm (Some d) ex sp fp = None"
    using assms by (simp add: search_where_def)
  then have r: "search_rows True db rid sm (Some d) ex sp fp = MmrUnavailable"
    by (simp add: search_rows_def)
  then have p: "perform_search_and_reply send True db rid sm (Some d) ex sp fp
             = send T_search_need_mmr get_main_keyboard"
    by (simp add: perform_search_and_reply_def)
  have c: "get_search_mmr_custom q rid inp ud db
                = Inr \<lparr>new_ud = ud, new_db = db,
                       sent = [ReplyText T_need_mmr SetMmrKeyboard], ret = END\<rparr>"
    if "py_int (py_strip inp) = Some d" "0 < d" "\<not> is_cancel (py_strip inp)"
    using that assms by (simp add: get_search_mmr_custom_def done_with_def)
  from w r p c texts_mmr_distinct on_delta_no_mmr [OF _ assms] show ?thesis
    by (simp add: bh_delta)
qed

lemma py_int_250: "py_int (asc ''250'') = Some 250"
  by (simp add: py_int_def py_strip_def py_isspace_def asc_def is_digit_def)

lemma requester_mmr_N: "requester_mmr ex_db 200 = None"
  by (simp add: requester_mmr_def get_profile_def ex_defs)

theorem mmr_filter_without_own_mmr_witness:
  "requester_mmr ex_db 200 = None
   \<and> search_rows True ex_db 200 None (Some 250) (Some True) None (Some False) = MmrUnavailable
   \<and> py_int (asc ''250'') = Some 250
   \<and> button_handler True True 200 None (asc ''delta_'' @ asc ''250'') ex_ud ex_db
       = Inr \<lparr>new_ud = ex_ud, new_db = ex_db,
              sent = [EditMessage T_need_mmr SetMmrKeyboard], ret = END\<rparr>
   \<and> get_search_mmr_custom True 200 (asc ''250'') ex_ud ex_db
       = Inr \<lparr>new_ud = ex_ud, new_db = ex_db,
              sent = [ReplyText T_need_mmr SetMmrKeyboard], ret = END\<rparr>"
proof -
  have s: "py_strip (asc ''250'') = asc ''250''"
    by (simp add: py_strip_def py_isspace_def asc_def)
  have c: "\<not> is_cancel (asc ''250'')"
    by (simp add: is_cancel_def py_lower_def lower_char_def CANCEL_RU_def asc_def)
  from s c py_int_250
    mmr_filter_without_own_mmr [where db = ex_db and rid = 200 and sm = None and d = 250
      and ex = "Some True" and sp = None and fp = "Some False" and rest = "asc ''250''"
      and u = True and q = True and un = None and ud = ex_ud and inp = "asc ''250''",
      OF requester_mmr_N]
  show ?thesis by (simp add: requester_mmr_N)
qed

text \<open>
  C4. The token \<open>delta_250\<close> in the session \<open>ex_ud\<close>, for the user 200 who has no MMR:
  the handler returns END and leaves the session as it was, with the search mode, the
  exclude flag, the full-party choice, the own position and the four steps of the stack
  still there. The lemmas after it show the paths that do clear them (the main menu, the
  search with no MMR filter, a delta button and a custom delta when the MMR is known) and
  what the leftover does: the next search of this user starts with the exclude flag off,
  where a search after a cleared session starts with it on.
\<close>

theorem delta_without_mmr_keeps_session:
  "button_handler True True 200 None (asc ''delta_250'') ex_ud ex_db
     = Inr \<lparr>new_ud = ex_ud, new_db = ex_db,
            sent = [EditMessage T_need_mmr SetMmrKeyboard], ret = END\<rparr>
   \<and> search_mode ex_ud = Some (asc ''Ranked'')
   \<and> exclude_position ex_ud = Some False
   \<and> only_full_party ex_ud = Some False
   \<and> own_position ex_ud = Some (asc ''Mid'')
   \<and> back_stack ex_ud = [asc ''MAIN_MENU'', asc ''SEARCH_MODE'', asc ''SEARCH_POS_OPTION'',
                           asc ''SEARCH_FULL_OPTION'']"
proof -
  have "asc ''delta_250'' = asc ''delta_'' @ asc ''250''" by (simp add: asc_def)
  then show ?thesis
    by (simp add: bh_delta on_delta_no_mmr [OF py_int_250 requester_mmr_N] ex_ud_def)
qed

lemma main_menu_clears:
  "button_handler u q uid un (asc ''main_menu'') ud db
     = Inr \<lparr>new_ud = ud\<lparr>back_stack := [], search_mode := None, exclude_position := None,
                        specific_position := None, only_full_party := None,
                        own_position := None\<rparr>,
            new_db = db, sent = [EditMessage T_main_menu MainKeyboard], ret = END\<rparr>"
  by (simp add: bh_main_menu on_main_menu_def done_with_def pop_search_fields_def clear_back_def
      get_main_keyboard_def)

lemma mmr_none_clears:
  "\<exists>msg. button_handler u q uid un (asc ''mmr_none'') ud db
     = Inr \<lparr>new_ud = ud\<lparr>back_stack := [], search_mode := None, exclude_position := None,
                        specific_position := None, only_full_party := None,
                        own_position := None\<rparr>,
            new_db = db, sent = [msg], ret = END\<rparr>"
  by (simp add: bh_mmr_none on_mmr_none_def done_with_def pop_search_fields_def clear_back_def)

lemma delta_with_mmr_clears:
  "py_int rest = Some d \<Longrightarrow> requester_mmr db uid = Some m \<Longrightarrow>
   \<exists>msg. button_handler u q uid un (asc ''delta_'' @ rest) ud db
     = Inr \<lparr>new_ud = ud\<lparr>back_stack := [], search_mode := None, exclude_position := None,
                        specific_position := None, only_full_party := None,
                        own_position := None\<rparr>,
            new_db = db, sent = [msg], ret = END\<rparr>"
  by (simp add: bh_delta on_delta_def done_with_def pop_search_fields_def clear_back_def)

lemma custom_delta_with_mmr_clears:
  "py_int (py_strip inp) = Some d \<Longrightarrow> 0 < d \<Longrightarrow> \<not> is_cancel (py_strip inp) \<Longrightarrow>
   requester_mmr db uid = Some m \<Longrightarrow>
   \<exists>msg. get_search_mmr_custom q uid inp ud db
     = Inr \<lparr>new_ud = ud\<lparr>back_stack := [], search_mode := None, exclude_position := None,
                        specific_position := None, only_full_party := None,
                        own_position := None\<rparr>,
            new_db = db, sent = [msg], ret = END\<rparr>"
  by (simp add: get_search_mmr_custom_def done_with_def pop_search_fields_def clear_back_def)

lemma stale_exclude_flag_survives:
  "(\<exists>r. button_handler u q 200 un (asc ''search_party'') ex_ud ex_db = Inr r
        \<and> exclude_position (new_ud r) = Some False)
   \<and> (\<exists>r. button_handler u q 200 un (asc ''search_party'')
             (clear_back (pop_search_fields ex_ud)) ex_db = Inr r
        \<and> exclude_position (new_ud r) = Some True)"
proof -
  have p: "requester_pos ex_db 200 = Some (asc ''Mid'')"
    by (simp add: requester_pos_def get_profile_def ex_defs)
  show ?thesis
    by (simp add: button_handler_def on_search_party_def p truthy_def set_default_exclude_def
        done_with_def store_last_text_def push_back_def clear_back_def pop_search_fields_def
        ex_ud_def)
qed

section \<open>The text of a position\<close>







lemma get_position_cancel_raises:
  "is_cancel (py_strip inp) \<Longrightarrow> back_stack ud \<noteq> [] \<Longrightarrow>
   last (back_stack ud) = asc ''PROFILE'' \<Longrightarrow> \<not> truthy (last_text ud (asc ''PROFILE'')) \<Longrightarrow>
   get_position ok uid un inp ud db = Inl TypeError"
  by (simp add: get_position_def on_cancel_text_def pop_back_def render_prev_def truthy_def
      get_last_text_def Let_def)





section \<open>The protected dump\<close>

lemma concat_slices:
  "concat (map (\<lambda>k. take n (drop (k * n) xs)) [0 ..< m]) = take (m * n) xs"
proof (induction m)
  case 0
  then show ?case by simp
next
  case (Suc m)
  have "take (m * n) xs @ take n (drop (m * n) xs) = take (m * n + n) xs"
    by (simp add: take_add)
  with Suc show ?case by (simp add: add.commute)
qed

lemma range_covers:
  fixes L n :: nat
  assumes "0 < n"
  shows "L \<le> ((L + n - 1) div n) * n"
proof -
  have "(L + n - 1) div n * n + (L + n - 1) mod n = L + n - 1"
    by (rule div_mult_mod_eq)
  moreover have "(L + n - 1) mod n < n"
    using assms by simp
  ultimately show ?thesis by arith
qed

lemma range_inside:
  fixes L n k :: nat
  assumes "0 < n" and "k < (L + n - 1) div n"
  shows "k * n < L"
proof -
  from assms(2) have "Suc k \<le> (L + n - 1) div n" by simp
  then have "Suc k * n \<le> (L + n - 1) div n * n"
    by (rule mult_le_mono1)
  also have "(L + n - 1) div n * n \<le> L + n - 1"
    by (rule div_times_less_eq_dividend)
  finally have "k * n + n \<le> L + n - 1" by (simp add: add.commute)
  with assms(1) show ?thesis by arith
qed

lemma dump_chunks_concat: "concat (dump_chunks t) = t"
proof -
  have "dump_chunks t
        = map (\<lambda>k. take chunk_size (drop (k * chunk_size) t))
            [0 ..< (length t + chunk_size - 1) div chunk_size]"
    by (simp add: dump_chunks_def py_range_step_def comp_def)
  then have "concat (dump_chunks t) = take (((length t + chunk_size - 1) div chunk_size) * chunk_size) t"
    by (simp only: concat_slices)
  moreover have "length t \<le> ((length t + chunk_size - 1) div chunk_size) * chunk_size"
    by (rule range_covers) (simp add: chunk_size_def)
  ultimately show ?thesis by simp
qed

lemma dump_chunks_sizes: "c \<in> set (dump_chunks t) \<Longrightarrow> length c \<le> 4000 \<and> c \<noteq> []"
proof -
  assume "c \<in> set (dump_chunks t)"
  then obtain k where k: "k < (length t + chunk_size - 1) div chunk_size"
    and c: "c = take chunk_size (drop (k * chunk_size) t)"
    by (auto simp: dump_chunks_def py_range_step_def)
  from k have "k * chunk_size < length t"
    by (intro range_inside) (simp_all add: chunk_size_def)
  with c show ?thesis by (simp add: chunk_size_def)
qed

lemma cmd_dump_admin:
  "db \<noteq> [] \<Longrightarrow>
   cmd_dump_profiles_protected True ADMIN_DUMP_USER_ID db
     = map (\<lambda>c. ReplyText c NoKeyboard)
         (dump_chunks (py_join [10] (map dump_line (take 500 db))))"
  by (simp add: cmd_dump_profiles_protected_def dump_rows_def)

text \<open>
  C5, as amended. A caller other than ADMIN_DUMP_USER_ID gets the refusal alone, whatever
  the table holds. The configured caller, when the table can be read, gets the notice that
  the table is empty, or else the lines of the first 500 rows of the table joined by line
  breaks and cut into messages sent in order: their texts concatenated are that text, and
  each has at least one and at most 4000 characters. A table of at most 500 rows is dumped
  whole.
\<close>

theorem dump_protected:
  "(caller \<noteq> ADMIN_DUMP_USER_ID \<longrightarrow>
      cmd_dump_profiles_protected ok caller db = [ReplyText T_no_access NoKeyboard])
   \<and> (db = [] \<longrightarrow>
        cmd_dump_profiles_protected True ADMIN_DUMP_USER_ID db
          = [ReplyText T_dump_empty NoKeyboard])
   \<and> (db \<noteq> [] \<longrightarrow>
        cmd_dump_profiles_protected True ADMIN_DUMP_USER_ID db
          = map (\<lambda>c. ReplyText c NoKeyboard)
              (dump_chunks (py_join [10] (map dump_line (take 500 db))))
        \<and> concat (map out_text (cmd_dump_profiles_protected True ADMIN_DUMP_USER_ID db))
            = py_join [10] (map dump_line (take 500 db))
        \<and> (\<forall>m \<in> set (cmd_dump_profiles_protected True ADMIN_DUMP_USER_ID db).
              length (out_text m) \<le> 4000 \<and> out_text m \<noteq> [] \<and> out_keyboard m = NoKeyboard)
        \<and> (length db \<le> 500 \<longrightarrow>
              concat (map out_text (cmd_dump_profiles_protected True ADMIN_DUMP_USER_ID db))
                = py_join [10] (map dump_line db)))"
proof -
  have a: "caller \<noteq> ADMIN_DUMP_USER_ID \<longrightarrow>
      cmd_dump_profiles_protected ok caller db = [ReplyText T_no_access NoKeyboard]"
    by (simp add: cmd_dump_profiles_protected_def)
  have b: "db = [] \<longrightarrow>
        cmd_dump_profiles_protected True ADMIN_DUMP_USER_ID db
          = [ReplyText T_dump_empty NoKeyboard]"
    by (simp add: cmd_dump_profiles_protected_def dump_rows_def)
  have c: "concat (map out_text (cmd_dump_profiles_protected True ADMIN_DUMP_USER_ID db))
            = py_join [10] (map dump_line (take 500 db))" if "db \<noteq> []"
    by (simp add: cmd_dump_admin [OF that] comp_def dump_chunks_concat)
  have d: "\<forall>m \<in> set (cmd_dump_profiles_protected True ADMIN_DUMP_USER_ID db).
              length (out_text m) \<le> 4000 \<and> out_text m \<noteq> [] \<and> out_keyboard m = NoKeyboard"
    if "db \<noteq> []"
    using dump_chunks_sizes by (auto simp: cmd_dump_admin [OF that])
  have e: "concat (map out_text (cmd_dump_profiles_protected True ADMIN_DUMP_USER_ID db))
                = py_join [10] (map dump_line db)" if "db \<noteq> []" "length db \<le> 500"
    using c [OF that(1)] that(2) by simp
  from a b c d e cmd_dump_admin show ?thesis by blast
qed

theorem dump_protected_witness:
  "ex_db \<noteq> [] \<and> length ex_db \<le> 500 \<and> (7 :: int) \<noteq> ADMIN_DUMP_USER_ID
   \<and> cmd_dump_profiles_protected True 7 ex_db = [ReplyText T_no_access NoKeyboard]
   \<and> cmd_dump_profiles_protected True ADMIN_DUMP_USER_ID []
       = [ReplyText T_dump_empty NoKeyboard]
   \<and> concat (map out_text (cmd_dump_profiles_protected True ADMIN_DUMP_USER_ID ex_db))
       = py_join [10] (map dump_line ex_db)"
proof -
  have n: "ex_db \<noteq> [] \<and> length ex_db \<le> 500 \<and> (7 :: int) \<noteq> ADMIN_DUMP_USER_ID"
    by (simp add: ex_db_def ADMIN_DUMP_USER_ID_def)
  from n dump_protected [where caller = 7 and ok = True and db = ex_db]
    dump_protected [where caller = 7 and ok = True and db = "[]"]
  show ?thesis by blast
qed

lemma big_db_split: "big_db = map mk_row [0 ..< 500] @ [mk_row 500]"
proof -
  have "[0 ..< Suc 500] = [0 ..< 500] @ [500]" by (rule upt_Suc_append) simp
  then have "[0 ..< 501] = [0 ..< 500] @ [500::nat]" by simp
  then show ?thesis by (simp add: big_db_def)
qed

lemma big_db_rows: "take 500 big_db = butlast big_db"
  by (simp add: big_db_split)

text \<open>
  The claim C5 as stated fails on a table of 501 profiles: the rows dumped are all but the
  last, the last profile is not among them, and the messages are those for the table
  without it.
\<close>

theorem dump_omits_profiles_beyond_500:
  "length big_db = 501
   \<and> distinct (map user_id big_db)
   \<and> dump_rows big_db = butlast big_db
   \<and> last big_db \<notin> set (dump_rows big_db)
   \<and> cmd_dump_profiles_protected True ADMIN_DUMP_USER_ID big_db
       = cmd_dump_profiles_protected True ADMIN_DUMP_USER_ID (butlast big_db)"
proof -
  have l: "length big_db = 501" by (simp add: big_db_def)
  have "map user_id big_db = map int [0 ..< 501]"
    by (simp add: big_db_def mk_row_def comp_def)
  then have d: "distinct (map user_id big_db)"
    by (simp add: distinct_map)
  have r: "dump_rows big_db = butlast big_db"
    by (simp add: dump_rows_def big_db_rows)
  have "last big_db = mk_row 500"
    by (simp add: big_db_split)
  moreover have "butlast big_db = map mk_row [0 ..< 500]"
    by (simp add: big_db_split)
  ultimately have n: "last big_db \<notin> set (dump_rows big_db)"
    by (auto simp: r mk_row_def)
  have "dump_rows (butlast big_db) = butlast big_db"
    by (simp add: dump_rows_def l)
  with r have "cmd_dump_profiles_protected True ADMIN_DUMP_USER_ID big_db
       = cmd_dump_profiles_protected True ADMIN_DUMP_USER_ID (butlast big_db)"
    by (simp add: cmd_dump_profiles_protected_def)
  with l d r n show ?thesis by simp
qed

section \<open>The cached prompts\<close>


























end
